theory Spec2Isabelle
  imports Main "HOL-Library.Word"
begin

section \<open>JavaScript values\<close>

text \<open>
  The logger of \<^verbatim>\<open>source/log.js\<close> is dynamically typed: every check of the source is a
  truthiness test or a \<^verbatim>\<open>typeof\<close> test on a value of any type. The values modelled are
  \<^verbatim>\<open>undefined\<close>, \<^verbatim>\<open>null\<close>, booleans, integers, \<^verbatim>\<open>NaN\<close>, strings, plain objects and
  \<^verbatim>\<open>Error\<close> objects.

  \<^item> \<open>JNum n\<close> is the number whose value is the signed reading \<open>sint n\<close> of a word of 54
    bits: an integer from \<open>-2^53\<close> to \<open>2^53 - 1\<close>. Every such integer is a number of
    JavaScript and prints as its decimal digits. No arithmetic is done on numbers.
  \<^item> \<open>JObj ps\<close> is a plain object (prototype \<^verbatim>\<open>Object.prototype\<close>) whose own
    enumerable data properties are the pairs \<open>ps\<close>, in the order in which they were
    created. The keys of a well-formed object are distinct; a lookup takes the first
    pair of a key.
  \<^item> \<open>JError m s\<close> is \<^verbatim>\<open>new Error(m)\<close> with stack trace \<open>s\<close>: \<^verbatim>\<open>message\<close> and
    \<^verbatim>\<open>stack\<close> are its own, non-enumerable properties.

  The datatype has no functions, symbols, bigints, arrays, fractional or infinite
  numbers, accessors or cyclic objects. No value of the datatype can be called.
\<close>

datatype jsval =
    JUndefined
  | JNull
  | JBool bool
  | JNum "54 word"
  | JNaN
  | JStr string
  | JObj "(string \<times> jsval) list"
  | JError string string

text \<open>ToBoolean: what \<^verbatim>\<open>!x\<close>, \<^verbatim>\<open>!!x\<close> and \<^verbatim>\<open>if (x)\<close> test.\<close>

fun truthy :: "jsval \<Rightarrow> bool" where
  "truthy JUndefined = False"
| "truthy JNull = False"
| "truthy (JBool b) = b"
| "truthy (JNum n) = (n \<noteq> 0)"
| "truthy JNaN = False"
| "truthy (JStr s) = (s \<noteq> [])"
| "truthy (JObj ps) = True"
| "truthy (JError m s) = True"

fun typeof :: "jsval \<Rightarrow> string" where
  "typeof JUndefined = ''undefined''"
| "typeof JNull = ''object''"
| "typeof (JBool b) = ''boolean''"
| "typeof (JNum n) = ''number''"
| "typeof JNaN = ''number''"
| "typeof (JStr s) = ''string''"
| "typeof (JObj ps) = ''object''"
| "typeof (JError m s) = ''object''"

subsection \<open>Decimal digits\<close>

definition digit_char :: "nat \<Rightarrow> char" where
  "digit_char d = ''0123456789'' ! d"

definition is_digit :: "char \<Rightarrow> bool" where
  "is_digit c = (c \<in> set ''0123456789'')"

text \<open>The value of a digit is its position in the table of digits.\<close>

definition digit_val :: "char \<Rightarrow> nat" where
  "digit_val c = length (takeWhile (\<lambda>d. d \<noteq> c) ''0123456789'')"

fun decimal :: "nat \<Rightarrow> string" where
  "decimal n = (if n < 10 then [digit_char n] else decimal (n div 10) @ [digit_char (n mod 10)])"

definition parse_decimal :: "string \<Rightarrow> nat" where
  "parse_decimal s = foldl (\<lambda>n c. 10 * n + digit_val c) 0 s"

text \<open>
  An array index is a property key that is the canonical decimal string of an integer
  from \<open>0\<close> to \<open>2^32 - 2\<close>: \<^verbatim>\<open>"0"\<close> and \<^verbatim>\<open>"17"\<close> are, \<^verbatim>\<open>"01"\<close>, \<^verbatim>\<open>"-1"\<close> and
  \<^verbatim>\<open>"note 1"\<close> are not.
\<close>

definition is_array_index :: "string \<Rightarrow> bool" where
  "is_array_index k =
     (k \<noteq> [] \<and> list_all is_digit k \<and> decimal (parse_decimal k) = k \<and> parse_decimal k < 4294967295)"

subsection \<open>Exceptions\<close>

text \<open>
  \<open>Error msg\<close> is \<^verbatim>\<open>new Error(msg)\<close> thrown by the source; \<open>TypeError msg\<close> is a TypeError
  thrown by the language (its message is the engine's and is not part of any statement
  about the source).
\<close>

datatype error = Error string | TypeError string

subsection \<open>Conversion to a string\<close>

text \<open>
  ToString, as a template literal \<^verbatim>\<open>`${ v }`\<close> applies it. For an object the conversion
  calls its \<^verbatim>\<open>toString\<close>. A plain object inherits \<^verbatim>\<open>Object.prototype.toString\<close> and
  renders as \<^verbatim>\<open>[object Object]\<close>, unless it has an own property \<^verbatim>\<open>toString\<close>: the value
  of that property is not a function (no value of the model is), the inherited
  \<^verbatim>\<open>valueOf\<close> returns the object itself, and the conversion throws a TypeError.
\<close>

fun to_string :: "jsval \<Rightarrow> error + string" where
  "to_string JUndefined = Inr ''undefined''"
| "to_string JNull = Inr ''null''"
| "to_string (JBool b) = Inr (if b then ''true'' else ''false'')"
| "to_string (JNum n) =
     Inr (if sint n < 0 then CHR ''-'' # decimal (nat (- sint n)) else decimal (nat (sint n)))"
| "to_string JNaN = Inr ''NaN''"
| "to_string (JStr s) = Inr s"
| "to_string (JObj ps) =
     (if ''toString'' \<in> set (map fst ps)
      then Inl (TypeError ''Cannot convert object to primitive value'')
      else Inr ''[object Object]'')"
| "to_string (JError m s) = Inr (if m = [] then ''Error'' else ''Error: '' @ m)"

subsection \<open>Properties\<close>

text \<open>
  \<open>own_prop v k\<close> is \<^verbatim>\<open>v[k]\<close> for a value that is neither \<^verbatim>\<open>undefined\<close> nor \<^verbatim>\<open>null\<close>.
  The source reads the properties \<^verbatim>\<open>fetch\<close>, \<^verbatim>\<open>application\<close>, \<^verbatim>\<open>key\<close>, \<^verbatim>\<open>mode\<close>,
  \<^verbatim>\<open>source\<close>, \<^verbatim>\<open>message\<close>, \<^verbatim>\<open>stack\<close>, \<^verbatim>\<open>body\<close>, \<^verbatim>\<open>method\<close>, \<^verbatim>\<open>url\<close> and the own
  keys of the notes; none of them is inherited from the prototype of a modelled value.
  A string has its characters as the properties \<^verbatim>\<open>"0"\<close>, \<^verbatim>\<open>"1"\<close>, ...
\<close>

fun own_prop :: "jsval \<Rightarrow> string \<Rightarrow> jsval" where
  "own_prop (JObj ps) k = (case map_of ps k of None \<Rightarrow> JUndefined | Some v \<Rightarrow> v)"
| "own_prop (JError m s) k =
     (if k = ''message'' then JStr m else if k = ''stack'' then JStr s else JUndefined)"
| "own_prop (JStr s) k =
     (if is_array_index k \<and> parse_decimal k < length s then JStr [s ! parse_decimal k]
      else JUndefined)"
| "own_prop v k = JUndefined"

text \<open>Reading a property of \<^verbatim>\<open>undefined\<close> or \<^verbatim>\<open>null\<close> throws a TypeError.\<close>

definition get_prop :: "jsval \<Rightarrow> string \<Rightarrow> error + jsval" where
  "get_prop v k =
     (if v = JUndefined \<or> v = JNull
      then Inl (TypeError (''Cannot read properties of ''
             @ (if v = JUndefined then ''undefined'' else ''null'')))
      else Inr (own_prop v k))"

text \<open>
  The own enumerable string-keyed properties in the order of \<^verbatim>\<open>Object.keys\<close>,
  \<^verbatim>\<open>for-in\<close> and \<^verbatim>\<open>JSON.stringify\<close> (OrdinaryOwnPropertyKeys): the array indices
  first, in ascending numeric order, then the other keys in the order of their creation.
\<close>

definition enumerable :: "(string \<times> 'a) list \<Rightarrow> (string \<times> 'a) list" where
  "enumerable ps =
     sort_key (\<lambda>p. parse_decimal (fst p)) (filter (\<lambda>p. is_array_index (fst p)) ps)
     @ filter (\<lambda>p. \<not> is_array_index (fst p)) ps"

fun Object_keys :: "jsval \<Rightarrow> string list" where
  "Object_keys (JObj ps) = map fst (enumerable ps)"
| "Object_keys (JStr s) = map decimal [0..<length s]"
| "Object_keys v = []"

subsection \<open>JSON text\<close>

text \<open>
  The text that \<^verbatim>\<open>JSON.stringify\<close> produces, as its syntax tree (the members of an
  object in the order of the text; the escaping of characters is not modelled).
  \<^verbatim>\<open>JSON.stringify(undefined)\<close> is \<^verbatim>\<open>undefined\<close>, here \<open>None\<close>; a property whose value
  is \<^verbatim>\<open>undefined\<close> is left out of the text; \<^verbatim>\<open>NaN\<close> is written \<^verbatim>\<open>null\<close>; an
  \<^verbatim>\<open>Error\<close> object has no enumerable property and is written \<^verbatim>\<open>{}\<close>.
\<close>

datatype json =
    JsonNull
  | JsonBool bool
  | JsonNum int
  | JsonStr string
  | JsonObj "(string \<times> json) list"

function stringify :: "jsval \<Rightarrow> json option" where
  "stringify JUndefined = None"
| "stringify JNull = Some JsonNull"
| "stringify (JBool b) = Some (JsonBool b)"
| "stringify (JNum n) = Some (JsonNum (sint n))"
| "stringify JNaN = Some JsonNull"
| "stringify (JStr s) = Some (JsonStr s)"
| "stringify (JObj ps) =
     Some (JsonObj (concat (map
       (\<lambda>p. case stringify (snd p) of None \<Rightarrow> [] | Some j \<Rightarrow> [(fst p, j)])
       (enumerable ps))))"
| "stringify (JError m s) = Some (JsonObj [])"
  by pat_completeness auto
termination
proof (relation "measure size")
  show "wf (measure size)"
    by simp
next
  fix ps :: "(string \<times> jsval) list" and p
  assume "p \<in> set (enumerable ps)"
  then have mem: "p \<in> set ps"
    by (auto simp: enumerable_def)
  have "size (snd p) \<le> size_prod (\<lambda>k. 0) size p"
    by (cases p) simp
  with mem have "size (snd p) \<le> size_list (size_prod (\<lambda>k. 0) size) ps"
    by (rule size_list_estimation')
  then show "(snd p, JObj ps) \<in> measure size"
    by simp
qed

text \<open>
  One member of the text of an object: nothing for a value that has no JSON text (the
  function that \<open>stringify\<close> maps over the properties of an object).
\<close>

definition json_member :: "string \<Rightarrow> jsval \<Rightarrow> (string \<times> json) list" where
  "json_member k v = (case stringify v of None \<Rightarrow> [] | Some j \<Rightarrow> [(k, j)])"

text \<open>
  \<^verbatim>\<open>JSON.parse(text)[k]\<close>, as the tests read \<^verbatim>\<open>log_entry\<close>, \<^verbatim>\<open>metadata\<close> and
  \<^verbatim>\<open>metadata.data\<close> from the body of a request: \<open>None\<close> where the parsed value has no
  such member.
\<close>

fun json_field :: "json option \<Rightarrow> string \<Rightarrow> json option" where
  "json_field (Some (JsonObj ms)) k = map_of ms k"
| "json_field j k = None"

section \<open>The console and the remote endpoint\<close>

text \<open>
  The effects of the logger are calls of \<^verbatim>\<open>console.log\<close>, \<^verbatim>\<open>console.error\<close> and of
  \<^verbatim>\<open>fetch\<close>. The world is the list of the calls made so far, oldest first; an operation
  returns the world with its own calls appended, also when it throws after a call.
  \<open>fetch_call\<close> holds the arguments of one call \<^verbatim>\<open>fetch(url, { method, headers, body })\<close>.
\<close>

datatype channel = Console_log | Console_error

record fetch_call =
  fetch_url :: string
  fetch_method :: string
  fetch_headers :: "(string \<times> string) list"
  fetch_body :: "json option"

datatype event = Console channel "jsval list" | Fetch fetch_call

type_synonym world = "event list"

text \<open>
  What a log operation returns: the pending result of the call of \<^verbatim>\<open>fetch\<close>, or
  \<^verbatim>\<open>undefined\<close> when the function body ends without a \<^verbatim>\<open>return\<close>.
\<close>

datatype outcome = Pending fetch_call | NoValue

fun is_console :: "event \<Rightarrow> bool" where
  "is_console (Console c args) = True"
| "is_console (Fetch call) = False"

fun is_fetch :: "event \<Rightarrow> bool" where
  "is_fetch (Console c args) = False"
| "is_fetch (Fetch call) = True"

section \<open>The logger factory\<close>

text \<open>
  Line 2, \<^verbatim>\<open>const fetch = options.fetch || require('node-fetch')\<close>: the function that
  sends is the module \<^verbatim>\<open>node-fetch\<close> (taken to be installed) when \<^verbatim>\<open>options.fetch\<close> is
  falsy, and the value of \<^verbatim>\<open>options.fetch\<close> otherwise. That value is accepted without any
  test; a value of the model is not a function, so the call of it throws a TypeError.
  (A function given as \<^verbatim>\<open>options.fetch\<close>, as the spies of the tests are, is outside the
  datatype; the world records the calls of \<^verbatim>\<open>node-fetch\<close> as a spy records its own.)
\<close>

datatype fetch_function = Node_fetch | Given jsval

text \<open>
  \<open>config\<close> is the closure of the function that \<^verbatim>\<open>module.exports\<close> returns (the
  tests call it \<^verbatim>\<open>createLogger\<close>, the source \<^verbatim>\<open>configureLogger\<close>); \<open>logger\<close> is the
  closure of a \<^verbatim>\<open>log\<close> function: the configuration and the name.
\<close>

record config =
  application :: jsval
  key :: jsval
  mode :: jsval
  source :: jsval
  fetch :: fetch_function

record logger =
  conf :: config
  name :: string

text \<open>
  Lines 1 to 7 and 139, \<^verbatim>\<open>module.exports = (options = {}) => ...\<close>: the default applies
  to \<^verbatim>\<open>undefined\<close> only, so \<^verbatim>\<open>options.fetch\<close> throws a TypeError on \<^verbatim>\<open>null\<close>, before the
  check of the required properties.
\<close>

definition module_exports :: "jsval \<Rightarrow> error + config" where
  "module_exports options0 =
     (let options = (if options0 = JUndefined then JObj [] else options0) in
      case get_prop options ''fetch'' of Inl e \<Rightarrow> Inl e | Inr f \<Rightarrow>
      case get_prop options ''application'' of Inl e \<Rightarrow> Inl e | Inr a \<Rightarrow>
      case get_prop options ''key'' of Inl e \<Rightarrow> Inl e | Inr k \<Rightarrow>
      case get_prop options ''mode'' of Inl e \<Rightarrow> Inl e | Inr m \<Rightarrow>
      case get_prop options ''source'' of Inl e \<Rightarrow> Inl e | Inr s \<Rightarrow>
      if \<not> truthy a \<or> \<not> truthy k \<or> \<not> truthy m \<or> \<not> truthy s
      then Inl (Error ''[configureLogger] Called without all required properties.'')
      else Inr \<lparr>application = a, key = k, mode = m, source = s,
                fetch = (if truthy f then Given f else Node_fetch)\<rparr>)"

subsection \<open>The display name\<close>

text \<open>
  Lines 16 to 19: \<^verbatim>\<open>s.split(c)\<close> for a separator of one character (a scan that closes
  the current segment at every separator and at the end), \<^verbatim>\<open>xs.join(sep)\<close>, and the
  display name, which the source computes once when the logger is created.
\<close>

fun split_from :: "char \<Rightarrow> string \<Rightarrow> string \<Rightarrow> string list" where
  "split_from c segment [] = [segment]"
| "split_from c segment (x # xs) =
     (if x = c then segment # split_from c [] xs else split_from c (segment @ [x]) xs)"

definition split :: "char \<Rightarrow> string \<Rightarrow> string list" where
  "split c s = split_from c [] s"

fun join :: "string \<Rightarrow> string list \<Rightarrow> string" where
  "join sep [] = []"
| "join sep [x] = x"
| "join sep (x # y # ys) = x @ sep @ join sep (y # ys)"

definition displayName :: "string \<Rightarrow> string" where
  "displayName n = join '' '' (map (\<lambda>text. ''['' @ text @ '']'') (split CHR ''+'' n))"

text \<open>
  Lines 9 to 19 and 136, \<^verbatim>\<open>configureLogger(name)\<close>. A truthy name that is not a string
  has no \<^verbatim>\<open>split\<close> method, and the call \<^verbatim>\<open>name.split('+')\<close> throws a TypeError.
\<close>

definition configureLogger :: "config \<Rightarrow> jsval \<Rightarrow> error + logger" where
  "configureLogger cfg n =
     (if \<not> truthy n then Inl (Error ''[createLogger] Called without a name.'')
      else case n of
        JStr s \<Rightarrow> Inr \<lparr>conf = cfg, name = s\<rparr>
      | _ \<Rightarrow> Inl (TypeError ''name.split is not a function''))"

subsection \<open>Messages\<close>

text \<open>
  Lines 23 to 35, \<^verbatim>\<open>createMessage(message, notes)\<close>. An argument or a property that the
  caller leaves out is \<open>JUndefined\<close>. The notes are truthy where \<^verbatim>\<open>notes[key]\<close> is read,
  so that read cannot throw. The suffix is computed first; the template literal of line
  34 then converts the message to a string, and throws when the conversion does.
\<close>

definition createMessage :: "logger \<Rightarrow> jsval \<Rightarrow> jsval \<Rightarrow> error + string" where
  "createMessage l message notes =
     (let suffix =
        (if truthy notes then
           (let truthyNotes = filter (\<lambda>k. truthy (own_prop notes k)) (Object_keys notes)
            in if truthyNotes \<noteq> [] then '' ('' @ join '', '' truthyNotes @ '')'' else [])
         else [])
      in case to_string message of
           Inl e \<Rightarrow> Inl e
         | Inr m \<Rightarrow> Inr (displayName (name l) @ '' '' @ m @ suffix))"

text \<open>
  Lines 37 to 56, \<^verbatim>\<open>logRemotely(message, { data, level })\<close>. The arguments of the call
  are evaluated first: the template literal of line 38 converts the key and then the
  source to strings and throws when a conversion does; \<^verbatim>\<open>JSON.stringify\<close> does not throw
  on a value of the model. Then \<^verbatim>\<open>fetch\<close> is called, which throws when it is not a
  function.
\<close>

definition logRemotely :: "logger \<Rightarrow> string \<Rightarrow> jsval \<Rightarrow> string \<Rightarrow> world \<Rightarrow> (error + outcome) \<times> world" where
  "logRemotely l message data level w =
     (case to_string (key (conf l)) of Inl e \<Rightarrow> (Inl e, w) | Inr k \<Rightarrow>
      case to_string (source (conf l)) of Inl e \<Rightarrow> (Inl e, w) | Inr s \<Rightarrow>
      let call =
        \<lparr>fetch_url = ''https://api.logflare.app/logs?api_key='' @ k @ ''&source='' @ s,
         fetch_method = ''POST'',
         fetch_headers = [(''Content-Type'', ''application/json; charset=UTF-8'')],
         fetch_body = stringify (JObj
           [(''log_entry'', JStr message),
            (''metadata'', JObj
              [(''application'', application (conf l)),
               (''data'', data),
               (''level'', JStr level),
               (''mode'', mode (conf l))])])\<rparr>
      in case fetch (conf l) of
           Node_fetch \<Rightarrow> (Inr (Pending call), w @ [Fetch call])
         | Given v \<Rightarrow> (Inl (TypeError ''fetch is not a function''), w))"

subsection \<open>The operations of a logger\<close>

text \<open>
  Lines 60 to 74 (\<open>log\<close>), 78 to 103 (\<open>log.error\<close>), 107 to 122 (\<open>log.request\<close>) and 126
  to 132 (\<open>log.append\<close>). Each operation takes the closure of its logger first and, when
  it has effects, the world last. An exception leaves the world as it is at the throw:
  a conversion that throws in \<open>createMessage\<close> or in the template literals of lines 113
  and 131 comes before any call, one that throws in \<open>logRemotely\<close> comes after the write
  to the console. \<open>log.request\<close> reads \<^verbatim>\<open>body\<close> twice: once in the destructuring, for
  the remote data, and once as \<^verbatim>\<open>request.body\<close>, for the test and the console.
\<close>

definition log :: "logger \<Rightarrow> jsval \<Rightarrow> jsval \<Rightarrow> jsval \<Rightarrow> world \<Rightarrow> (error + outcome) \<times> world" where
  "log l message data notes w =
     (if \<not> truthy message then (Inl (Error ''[log] Called without a message.''), w)
      else
        case createMessage l message notes of Inl e \<Rightarrow> (Inl e, w) | Inr fullMessage \<Rightarrow>
        if truthy data
        then logRemotely l fullMessage data ''info''
               (w @ [Console Console_log [JStr fullMessage, data]])
        else logRemotely l fullMessage JUndefined ''info''
               (w @ [Console Console_log [JStr fullMessage]]))"

definition log_error :: "logger \<Rightarrow> jsval \<Rightarrow> jsval \<Rightarrow> world \<Rightarrow> (error + outcome) \<times> world" where
  "log_error l errorOrMessage data w =
     (if \<not> truthy errorOrMessage
      then (Inl (Error ''[log.error] Called without an error or message.''), w)
      else if typeof errorOrMessage = ''string'' then
        (case createMessage l errorOrMessage JUndefined of Inl e \<Rightarrow> (Inl e, w) | Inr message \<Rightarrow>
         if truthy data
         then logRemotely l message data ''error''
                (w @ [Console Console_error [JStr message, data]])
         else logRemotely l message JUndefined ''error''
                (w @ [Console Console_error [JStr message]]))
      else if typeof errorOrMessage = ''object'' then
        (case get_prop errorOrMessage ''message'' of Inl e \<Rightarrow> (Inl e, w) | Inr msg \<Rightarrow>
         case createMessage l msg JUndefined of Inl e \<Rightarrow> (Inl e, w) | Inr message \<Rightarrow>
         case get_prop errorOrMessage ''stack'' of Inl e \<Rightarrow> (Inl e, w) | Inr stack \<Rightarrow>
         let metadata = JObj [(''stack'', stack), (''error'', errorOrMessage)] in
         logRemotely l message metadata ''error''
           (w @ [Console Console_error [JStr message, metadata]]))
      else (Inr NoValue, w))"

definition log_request :: "logger \<Rightarrow> jsval \<Rightarrow> world \<Rightarrow> (error + outcome) \<times> world" where
  "log_request l request w =
     (if \<not> truthy request then (Inl (Error ''[log.request] Called without a request.''), w)
      else
        case get_prop request ''body'' of Inl e \<Rightarrow> (Inl e, w) | Inr body \<Rightarrow>
        case get_prop request ''method'' of Inl e \<Rightarrow> (Inl e, w) | Inr method \<Rightarrow>
        case get_prop request ''url'' of Inl e \<Rightarrow> (Inl e, w) | Inr url \<Rightarrow>
        case to_string method of Inl e \<Rightarrow> (Inl e, w) | Inr m \<Rightarrow>
        case to_string url of Inl e \<Rightarrow> (Inl e, w) | Inr u \<Rightarrow>
        case createMessage l (JStr (m @ '' '' @ u)) JUndefined of Inl e \<Rightarrow> (Inl e, w) | Inr message \<Rightarrow>
        case get_prop request ''body'' of Inl e \<Rightarrow> (Inl e, w) | Inr request_body \<Rightarrow>
        if truthy request_body
        then logRemotely l message body ''info''
               (w @ [Console Console_log [JStr message, request_body]])
        else logRemotely l message JUndefined ''info''
               (w @ [Console Console_log [JStr message]]))"

definition log_append :: "logger \<Rightarrow> jsval \<Rightarrow> error + logger" where
  "log_append l newName =
     (if \<not> truthy newName then Inl (Error ''[log.append] Called without a name.'')
      else case to_string newName of Inl e \<Rightarrow> Inl e | Inr n \<Rightarrow>
        configureLogger (conf l) (JStr (name l @ ''+'' @ n)))"

subsection \<open>What the tests observe\<close>

text \<open>
  \<open>fetch_calls\<close> are the calls of \<^verbatim>\<open>fetch\<close> in the world, as a spy records them, and
  \<open>getFetchBody\<close> is the helper of \<^verbatim>\<open>log.test.js\<close>,
  \<^verbatim>\<open>JSON.parse(fetch.getCall(0).args[1].body)\<close>: the parsed body of the first call
  (\<open>None\<close> when there is no call or no body).
\<close>

fun fetch_calls :: "world \<Rightarrow> fetch_call list" where
  "fetch_calls [] = []"
| "fetch_calls (Fetch call # w) = call # fetch_calls w"
| "fetch_calls (Console c args # w) = fetch_calls w"

definition getFetchBody :: "world \<Rightarrow> json option" where
  "getFetchBody w = (case fetch_calls w of [] \<Rightarrow> None | call # calls \<Rightarrow> fetch_body call)"

subsection \<open>The fixtures of the tests\<close>

text \<open>
  \<^verbatim>\<open>fake.options\<close> of \<^verbatim>\<open>log.test.js\<close> (its \<^verbatim>\<open>fetch\<close> is \<^verbatim>\<open>undefined\<close>), and the logger
  that \<^verbatim>\<open>configureLogger(fake.options)(fake.name)\<close> creates from it.
\<close>

definition fake_options :: jsval where
  "fake_options = JObj
     [(''application'', JStr ''string''),
      (''fetch'', JUndefined),
      (''key'', JStr ''string''),
      (''mode'', JStr ''string''),
      (''source'', JStr ''string'')]"

definition fake_config :: config where
  "fake_config =
     \<lparr>application = JStr ''string'', key = JStr ''string'', mode = JStr ''string'',
      source = JStr ''string'', fetch = Node_fetch\<rparr>"

definition fake_logger :: logger where
  "fake_logger = \<lparr>conf = fake_config, name = ''name''\<rparr>"

section \<open>Basic facts\<close>

subsection \<open>Properties and JSON text\<close>

lemma get_prop_truthy: "truthy v \<Longrightarrow> get_prop v k = Inr (own_prop v k)"
  by (cases v) (simp_all add: get_prop_def)

lemma typeof_string: "typeof e = ''string'' \<Longrightarrow> \<exists>s. e = JStr s"
  by (cases e) simp_all

lemma stringify_None_iff: "stringify v = None \<longleftrightarrow> v = JUndefined"
  by (cases v) simp_all

lemma truthy_stringify: "truthy v \<Longrightarrow> \<exists>j. stringify v = Some j"
  by (cases v) simp_all

lemma not_array_index_letter: "\<not> is_digit c \<Longrightarrow> \<not> is_array_index (c # cs)"
  by (simp add: is_array_index_def)

lemma set_enumerable: "set (enumerable ps) = set ps"
  by (auto simp: enumerable_def)

lemma enumerable_no_index:
  "\<forall>p\<in>set ps. \<not> is_array_index (fst p) \<Longrightarrow> enumerable ps = ps"
  by (simp add: enumerable_def filter_empty_conv[THEN iffD2])

lemma enumerable_split:
  "enumerable ps = filter (\<lambda>p. is_array_index (fst p)) (enumerable ps)
     @ filter (\<lambda>p. \<not> is_array_index (fst p)) ps"
  by (simp add: enumerable_def filter_sort filter_empty_conv[THEN iffD2])

lemma enumerable_indices_sorted:
  "sorted (map (\<lambda>p. parse_decimal (fst p)) (filter (\<lambda>p. is_array_index (fst p)) (enumerable ps)))"
  by (simp add: enumerable_def filter_sort filter_empty_conv[THEN iffD2])

lemma stringify_pair:
  "\<not> is_array_index k1 \<Longrightarrow> \<not> is_array_index k2 \<Longrightarrow>
   stringify (JObj [(k1, v1), (k2, v2)]) = Some (JsonObj (json_member k1 v1 @ json_member k2 v2))"
  by (simp add: enumerable_def json_member_def split: option.split)

lemma stringify_stack_error:
  "stringify (JObj [(''stack'', st), (''error'', e)])
     = Some (JsonObj (json_member ''stack'' st @ json_member ''error'' e))"
  by (simp add: stringify_pair not_array_index_letter is_digit_def del: stringify.simps)

lemma stringify_payload:
  "stringify (JObj
     [(''log_entry'', JStr message),
      (''metadata'', JObj
        [(''application'', a), (''data'', d), (''level'', JStr level), (''mode'', m)])])
   = Some (JsonObj
     [(''log_entry'', JsonStr message),
      (''metadata'', JsonObj (json_member ''application'' a @ json_member ''data'' d
         @ (''level'', JsonStr level) # json_member ''mode'' m))])"
  by (simp add: enumerable_def json_member_def not_array_index_letter is_digit_def
      split: option.split)

lemma metadata_lookup:
  "map_of (json_member ''application'' a @ json_member ''data'' d
      @ (''level'', JsonStr lv) # json_member ''mode'' m) k =
     (if k = ''application'' then stringify a
      else if k = ''data'' then stringify d
      else if k = ''level'' then Some (JsonStr lv)
      else if k = ''mode'' then stringify m
      else None)"
  by (simp add: json_member_def split: option.split)

subsection \<open>The fixtures\<close>

lemma fake_logger_created:
  "module_exports fake_options = Inr fake_config
   \<and> configureLogger fake_config (JStr ''name'') = Inr fake_logger"
  by (simp add: module_exports_def fake_options_def fake_config_def fake_logger_def
      get_prop_def configureLogger_def)

lemma fake_logger_sends:
  "fetch (conf fake_logger) = Node_fetch
   \<and> to_string (key (conf fake_logger)) = Inr ''string''
   \<and> to_string (source (conf fake_logger)) = Inr ''string''"
  by (simp add: fake_logger_def fake_config_def)

subsection \<open>The remote send\<close>

text \<open>
  The call of \<^verbatim>\<open>fetch\<close> that \<open>logRemotely\<close> makes when key and source convert to strings
  and \<^verbatim>\<open>fetch\<close> is a function, with the text of its body written out.
\<close>

lemma logRemotely_sends:
  assumes "fetch (conf l) = Node_fetch"
    and "to_string (key (conf l)) = Inr k" and "to_string (source (conf l)) = Inr s"
  shows "logRemotely l message data level w =
     (Inr (Pending
        \<lparr>fetch_url = ''https://api.logflare.app/logs?api_key='' @ k @ ''&source='' @ s,
         fetch_method = ''POST'',
         fetch_headers = [(''Content-Type'', ''application/json; charset=UTF-8'')],
         fetch_body = Some (JsonObj
           [(''log_entry'', JsonStr message),
            (''metadata'', JsonObj (json_member ''application'' (application (conf l))
               @ json_member ''data'' data @ (''level'', JsonStr level)
               # json_member ''mode'' (mode (conf l))))])\<rparr>),
      w @ [Fetch
        \<lparr>fetch_url = ''https://api.logflare.app/logs?api_key='' @ k @ ''&source='' @ s,
         fetch_method = ''POST'',
         fetch_headers = [(''Content-Type'', ''application/json; charset=UTF-8'')],
         fetch_body = Some (JsonObj
           [(''log_entry'', JsonStr message),
            (''metadata'', JsonObj (json_member ''application'' (application (conf l))
               @ json_member ''data'' data @ (''level'', JsonStr level)
               # json_member ''mode'' (mode (conf l))))])\<rparr>])"
  unfolding logRemotely_def Let_def stringify_payload
  using assms by simp

text \<open>
  Whatever the logger, \<open>logRemotely\<close> either throws and leaves the world as it is, or
  appends one call whose body holds the message, the data and the level it was given.
\<close>

lemma logRemotely_cases:
  "(\<exists>e. logRemotely l message data level w = (Inl e, w))
   \<or> (\<exists>call. logRemotely l message data level w = (Inr (Pending call), w @ [Fetch call])
        \<and> json_field (fetch_body call) ''log_entry'' = Some (JsonStr message)
        \<and> json_field (json_field (fetch_body call) ''metadata'') ''data'' = stringify data
        \<and> json_field (json_field (fetch_body call) ''metadata'') ''level'' = Some (JsonStr level))"
  unfolding logRemotely_def Let_def stringify_payload
  by (simp add: metadata_lookup del: map_of_append split: sum.split fetch_function.split)

text \<open>The only exceptions of a conversion and of a send are TypeErrors of the language.\<close>

lemma to_string_error: "to_string v = Inl err \<Longrightarrow> err \<noteq> Error text"
  by (cases v) (auto split: if_splits)

lemma logRemotely_error: "fst (logRemotely l message data level w) \<noteq> Inl (Error text)"
  by (auto simp: logRemotely_def Let_def split: sum.split fetch_function.split
      dest: to_string_error)

lemma logRemotely_fields:
  assumes "fetch (conf l) = Node_fetch"
    and "to_string (key (conf l)) = Inr k" and "to_string (source (conf l)) = Inr s"
  shows "\<exists>call. logRemotely l message data level w = (Inr (Pending call), w @ [Fetch call])
     \<and> json_field (fetch_body call) ''log_entry'' = Some (JsonStr message)
     \<and> json_field (json_field (fetch_body call) ''metadata'') ''data'' = stringify data
     \<and> json_field (json_field (fetch_body call) ''metadata'') ''level'' = Some (JsonStr level)"
  unfolding logRemotely_sends [OF assms]
  by (simp add: metadata_lookup del: map_of_append)

lemma logRemotely_after_console:
  assumes "fetch (conf l) = Node_fetch"
    and "to_string (key (conf l)) = Inr k" and "to_string (source (conf l)) = Inr s"
  shows "\<exists>call. logRemotely l message data level (w @ [c]) = (Inr (Pending call), w @ [c, Fetch call])
     \<and> json_field (fetch_body call) ''log_entry'' = Some (JsonStr message)
     \<and> json_field (json_field (fetch_body call) ''metadata'') ''data'' = stringify data
     \<and> json_field (json_field (fetch_body call) ''metadata'') ''level'' = Some (JsonStr level)"
  using logRemotely_fields [OF assms, of message data level "w @ [c]"] by auto

text \<open>
  After a write \<open>c\<close> to the console, \<open>logRemotely\<close> either throws and sends nothing, or
  makes one call that carries the message, the data and the level it was given; it makes
  the call exactly when \<^verbatim>\<open>fetch\<close> is a function and key and source convert to strings.
\<close>

lemma logRemotely_outcome:
  "\<exists>r sent. logRemotely l message d level (w @ [c]) = (r, w @ c # sent)
     \<and> ((\<exists>err. r = Inl err \<and> sent = [])
        \<or> (\<exists>call. r = Inr (Pending call) \<and> sent = [Fetch call]
             \<and> json_field (fetch_body call) ''log_entry'' = Some (JsonStr message)
             \<and> json_field (json_field (fetch_body call) ''metadata'') ''data'' = stringify d
             \<and> json_field (json_field (fetch_body call) ''metadata'') ''level''
                 = Some (JsonStr level)))
     \<and> ((\<exists>call. r = Inr (Pending call)) \<longleftrightarrow>
          fetch (conf l) = Node_fetch \<and> (\<exists>k. to_string (key (conf l)) = Inr k)
          \<and> (\<exists>s. to_string (source (conf l)) = Inr s))"
  unfolding logRemotely_def Let_def stringify_payload
  by (auto simp: metadata_lookup simp del: map_of_append split: sum.split fetch_function.split)

subsection \<open>Messages\<close>

lemma createMessage_throws: "to_string message = Inl e \<Longrightarrow> createMessage l message notes = Inl e"
  by (simp add: createMessage_def Let_def)

lemma createMessage_no_notes:
  "to_string message = Inr m \<Longrightarrow>
   createMessage l message JUndefined = Inr (displayName (name l) @ '' '' @ m)"
  by (simp add: createMessage_def)

lemma createMessage_suffix:
  "to_string message = Inr m \<Longrightarrow>
   \<exists>sfx. createMessage l message notes = Inr (displayName (name l) @ '' '' @ m @ sfx)
     \<and> (sfx = [] \<or> (\<exists>ks. ks \<noteq> [] \<and> sfx = '' ('' @ join '', '' ks @ '')''))"
  by (auto simp: createMessage_def Let_def)

text \<open>
  With distinct keys, the keys that \<open>createMessage\<close> keeps are the keys of the pairs whose
  value is truthy.
\<close>

lemma truthyNotes_pairs:
  assumes "distinct (map fst ps)"
  shows "filter (\<lambda>k. truthy (own_prop (JObj ps) k)) (Object_keys (JObj ps))
    = map fst (filter (\<lambda>p. truthy (snd p)) (enumerable ps))"
proof -
  have "truthy (own_prop (JObj ps) (fst p)) = truthy (snd p)" if "p \<in> set (enumerable ps)" for p
  proof -
    from that have "(fst p, snd p) \<in> set ps"
      by (simp add: set_enumerable)
    with assms have "map_of ps (fst p) = Some (snd p)"
      by (rule map_of_is_SomeI)
    then show ?thesis by simp
  qed
  then have "filter (\<lambda>p. truthy (own_prop (JObj ps) (fst p))) (enumerable ps)
      = filter (\<lambda>p. truthy (snd p)) (enumerable ps)"
    by (intro filter_cong) simp_all
  then show ?thesis
    by (simp add: filter_map o_def)
qed

subsection \<open>The operations, after the check of the required argument\<close>

lemma log_eq:
  "truthy message \<Longrightarrow> log l message data notes w =
     (case createMessage l message notes of
        Inl e \<Rightarrow> (Inl e, w)
      | Inr full \<Rightarrow>
          logRemotely l full (if truthy data then data else JUndefined) ''info''
            (w @ [Console Console_log (JStr full # (if truthy data then [data] else []))]))"
  by (simp add: log_def split: sum.split)

lemma log_error_string_eq:
  "s \<noteq> [] \<Longrightarrow> log_error l (JStr s) data w =
     logRemotely l (displayName (name l) @ '' '' @ s)
       (if truthy data then data else JUndefined) ''error''
       (w @ [Console Console_error
          (JStr (displayName (name l) @ '' '' @ s) # (if truthy data then [data] else []))])"
  by (simp add: log_error_def createMessage_def)

lemma log_error_object_eq:
  "truthy e \<Longrightarrow> typeof e = ''object'' \<Longrightarrow> log_error l e data w =
     (case to_string (own_prop e ''message'') of
        Inl err \<Rightarrow> (Inl err, w)
      | Inr m \<Rightarrow>
          logRemotely l (displayName (name l) @ '' '' @ m)
            (JObj [(''stack'', own_prop e ''stack''), (''error'', e)]) ''error''
            (w @ [Console Console_error
               [JStr (displayName (name l) @ '' '' @ m),
                JObj [(''stack'', own_prop e ''stack''), (''error'', e)]]]))"
  by (simp add: log_error_def Let_def get_prop_truthy createMessage_def split: sum.split)

lemma log_request_eq:
  "truthy request \<Longrightarrow> log_request l request w =
     (case to_string (own_prop request ''method'') of
        Inl e \<Rightarrow> (Inl e, w)
      | Inr m \<Rightarrow>
         (case to_string (own_prop request ''url'') of
            Inl e \<Rightarrow> (Inl e, w)
          | Inr u \<Rightarrow>
              logRemotely l (displayName (name l) @ '' '' @ m @ '' '' @ u)
                (if truthy (own_prop request ''body'') then own_prop request ''body'' else JUndefined)
                ''info''
                (w @ [Console Console_log
                   (JStr (displayName (name l) @ '' '' @ m @ '' '' @ u)
                    # (if truthy (own_prop request ''body'') then [own_prop request ''body'']
                       else []))])))"
  by (simp add: log_request_def Let_def get_prop_truthy createMessage_def split: sum.split)

lemma log_plain:
  assumes "fetch (conf l) = Node_fetch"
    and "to_string (key (conf l)) = Inr k" and "to_string (source (conf l)) = Inr s"
    and "m \<noteq> []"
  shows "\<exists>call. log l (JStr m) JUndefined JUndefined w =
     (Inr (Pending call),
      w @ [Console Console_log [JStr (displayName (name l) @ '' '' @ m)], Fetch call])"
  using logRemotely_after_console [OF assms(1-3), of "displayName (name l) @ '' '' @ m"
      JUndefined "''info''" w "Console Console_log [JStr (displayName (name l) @ '' '' @ m)]"]
    assms(4)
  by (auto simp: log_eq createMessage_def)

lemma log_append_eq:
  "truthy b \<Longrightarrow> to_string b = Inr sb \<Longrightarrow>
   log_append l b = Inr \<lparr>conf = conf l, name = name l @ ''+'' @ sb\<rparr>"
  by (simp add: log_append_def configureLogger_def)

subsection \<open>Configuration\<close>

lemma module_exports_eq:
  "options \<noteq> JNull \<Longrightarrow> module_exports options =
     (if truthy (own_prop options ''application'') \<and> truthy (own_prop options ''key'')
         \<and> truthy (own_prop options ''mode'') \<and> truthy (own_prop options ''source'')
      then Inr \<lparr>application = own_prop options ''application'', key = own_prop options ''key'',
                mode = own_prop options ''mode'', source = own_prop options ''source'',
                fetch = (if truthy (own_prop options ''fetch'')
                         then Given (own_prop options ''fetch'') else Node_fetch)\<rparr>
      else Inl (Error ''[configureLogger] Called without all required properties.''))"
  by (cases "options = JUndefined") (auto simp: module_exports_def get_prop_def)

lemma module_exports_null:
  "module_exports JNull = Inl (TypeError ''Cannot read properties of null'')"
  by (simp add: module_exports_def get_prop_def)

lemma module_exports_Inr:
  assumes "module_exports options = Inr cfg"
  shows "truthy (application cfg) \<and> truthy (key cfg) \<and> truthy (mode cfg) \<and> truthy (source cfg)
    \<and> application cfg = own_prop options ''application'' \<and> key cfg = own_prop options ''key''
    \<and> mode cfg = own_prop options ''mode'' \<and> source cfg = own_prop options ''source''
    \<and> fetch cfg = (if truthy (own_prop options ''fetch'')
                   then Given (own_prop options ''fetch'') else Node_fetch)"
proof (cases "options = JNull")
  case True
  with assms show ?thesis by (simp add: module_exports_null)
next
  case False
  with assms show ?thesis
    by (auto simp: module_exports_eq split: if_splits)
qed

subsection \<open>Splitting and joining\<close>

lemma split_from_not_Nil: "split_from c segment s \<noteq> []"
  by (induction s arbitrary: segment) simp_all

lemma split_from_append:
  "split_from c segment (a @ c # b) = split_from c segment a @ split_from c [] b"
  by (induction a arbitrary: segment) simp_all

lemma split_from_no_separator: "c \<notin> set s \<Longrightarrow> split_from c segment s = [segment @ s]"
  by (induction s arbitrary: segment) auto

lemma split_not_Nil: "split c s \<noteq> []"
  by (simp add: split_def split_from_not_Nil)

lemma split_append: "split c (a @ c # b) = split c a @ split c b"
  by (simp add: split_def split_from_append)

lemma split_no_separator: "c \<notin> set s \<Longrightarrow> split c s = [s]"
  by (simp add: split_def split_from_no_separator)

lemma join_append:
  "xs \<noteq> [] \<Longrightarrow> ys \<noteq> [] \<Longrightarrow> join sep (xs @ ys) = join sep xs @ sep @ join sep ys"
proof (induction sep xs rule: join.induct)
  case (1 sep)
  then show ?case by simp
next
  case (2 sep x)
  then show ?case by (cases ys) simp_all
next
  case (3 sep x y ys')
  then show ?case by simp
qed

lemma displayName_append:
  "displayName (a @ CHR ''+'' # b) = displayName a @ '' '' @ displayName b"
  by (simp add: displayName_def split_append join_append split_not_Nil)

lemma displayName_simple: "CHR ''+'' \<notin> set a \<Longrightarrow> displayName a = ''['' @ a @ '']''"
  by (simp add: displayName_def split_no_separator)

section \<open>One write and one send\<close>

text \<open>
  C1, amended. For every logger whose \<^verbatim>\<open>fetch\<close> is a function and whose key and source
  convert to strings, each of these calls appends exactly two events to the world, one
  write to the console and then one call of \<^verbatim>\<open>fetch\<close>, and returns the pending result
  of that \<^verbatim>\<open>fetch\<close>: \<open>log\<close> on a truthy message that converts to a string;
  \<open>log.request\<close> on a truthy request whose method and url convert to strings;
  \<open>log.error\<close> on a truthy string, and on a truthy object whose message converts to a
  string. (The amendments: \<open>log.error\<close> is restricted to strings and objects, and the
  values rendered into the message and the URL must convert to strings, which every
  value of the model does except an object with an own \<^verbatim>\<open>toString\<close> property. A
  symbol, which does not convert to a string either, and data that \<^verbatim>\<open>JSON.stringify\<close>
  rejects, such as a cyclic object or a bigint, are not values of the model: the
  statement does not cover them.)
\<close>

theorem one_write_one_send:
  assumes "fetch (conf l) = Node_fetch"
    and "to_string (key (conf l)) = Inr k" and "to_string (source (conf l)) = Inr s"
  shows "(truthy message \<and> to_string message = Inr m \<longrightarrow>
      (\<exists>c f r. log l message data notes w = (Inr r, w @ [c, f]) \<and> is_console c \<and> is_fetch f))
   \<and> (truthy request \<and> to_string (own_prop request ''method'') = Inr rm
        \<and> to_string (own_prop request ''url'') = Inr ru \<longrightarrow>
      (\<exists>c f r. log_request l request w = (Inr r, w @ [c, f]) \<and> is_console c \<and> is_fetch f))
   \<and> (truthy e \<and> typeof e = ''string'' \<longrightarrow>
      (\<exists>c f r. log_error l e data' w = (Inr r, w @ [c, f]) \<and> is_console c \<and> is_fetch f))
   \<and> (truthy e \<and> typeof e = ''object'' \<and> to_string (own_prop e ''message'') = Inr em \<longrightarrow>
      (\<exists>c f r. log_error l e data' w = (Inr r, w @ [c, f]) \<and> is_console c \<and> is_fetch f))"
proof (intro conjI impI)
  assume a: "truthy message \<and> to_string message = Inr m"
  then obtain sfx where "createMessage l message notes = Inr (displayName (name l) @ '' '' @ m @ sfx)"
    using createMessage_suffix by blast
  with a show "\<exists>c f r. log l message data notes w = (Inr r, w @ [c, f]) \<and> is_console c \<and> is_fetch f"
    by (simp add: log_eq logRemotely_sends [OF assms])
next
  assume "truthy request \<and> to_string (own_prop request ''method'') = Inr rm
        \<and> to_string (own_prop request ''url'') = Inr ru"
  then show "\<exists>c f r. log_request l request w = (Inr r, w @ [c, f]) \<and> is_console c \<and> is_fetch f"
    by (simp add: log_request_eq logRemotely_sends [OF assms])
next
  assume a: "truthy e \<and> typeof e = ''string''"
  then obtain str where "e = JStr str"
    using typeof_string by blast
  with a show "\<exists>c f r. log_error l e data' w = (Inr r, w @ [c, f]) \<and> is_console c \<and> is_fetch f"
    by (simp add: log_error_string_eq logRemotely_sends [OF assms])
next
  assume "truthy e \<and> typeof e = ''object'' \<and> to_string (own_prop e ''message'') = Inr em"
  then show "\<exists>c f r. log_error l e data' w = (Inr r, w @ [c, f]) \<and> is_console c \<and> is_fetch f"
    by (simp add: log_error_object_eq logRemotely_sends [OF assms])
qed

theorem one_write_one_send_witness:
  "(\<exists>c f r. log fake_logger (JStr ''message'') JUndefined JUndefined [] = (Inr r, [c, f])
       \<and> is_console c \<and> is_fetch f)
   \<and> (\<exists>c f r. log_request fake_logger (JObj []) [] = (Inr r, [c, f])
       \<and> is_console c \<and> is_fetch f)
   \<and> (\<exists>c f r. log_error fake_logger (JStr ''message'') JUndefined [] = (Inr r, [c, f])
       \<and> is_console c \<and> is_fetch f)
   \<and> (\<exists>c f r. log_error fake_logger (JError ''Error message.'' ''stack'') JUndefined [] = (Inr r, [c, f])
       \<and> is_console c \<and> is_fetch f)"
proof -
  have sends: "fetch (conf fake_logger) = Node_fetch"
    "to_string (key (conf fake_logger)) = Inr ''string''"
    "to_string (source (conf fake_logger)) = Inr ''string''"
    using fake_logger_sends by simp_all
  show ?thesis
    using
      one_write_one_send [OF sends, of "JStr ''message''" "''message''" JUndefined JUndefined "[]"
        "JObj []" "''undefined''" "''undefined''" "JStr ''message''" JUndefined "''x''"]
      one_write_one_send [OF sends, of JUndefined "''x''" JUndefined JUndefined "[]"
        JUndefined "''x''" "''x''" "JError ''Error message.'' ''stack''" JUndefined
        "''Error message.''"]
    by simp
qed

text \<open>
  C1 as stated fails for \<open>log.error\<close> on a truthy argument that is neither a string nor
  an object: \<^verbatim>\<open>log.error(42)\<close> passes the check of its argument, matches neither
  \<^verbatim>\<open>typeof\<close> test, and returns \<^verbatim>\<open>undefined\<close> without a write and without a send.
\<close>

theorem log_error_number_counterexample:
  "truthy (JNum 42) \<and> log_error fake_logger (JNum 42) JUndefined [] = (Inr NoValue, [])"
  by (simp add: log_error_def)

section \<open>The request log\<close>

text \<open>
  C2, amended. For every truthy request whose method and url convert to strings, on a
  logger whose key and source convert to strings and whose \<^verbatim>\<open>fetch\<close> is a function,
  \<open>log.request\<close> writes to \<^verbatim>\<open>console.log\<close> and sends a payload whose \<^verbatim>\<open>log_entry\<close> is the
  display name of the logger, a space, and \<^verbatim>\<open>"{method} {url}"\<close>; the level is \<^verbatim>\<open>"info"\<close>;
  the metadata have a \<^verbatim>\<open>data\<close> member, the text of the body, exactly when the body is
  truthy, and the console receives the body as a second argument in the same case.
  (The amendments: the display name in front of \<^verbatim>\<open>"{method} {url}"\<close>, and the
  conversions to strings, which throw for an object with an own \<^verbatim>\<open>toString\<close> property.
  A symbol as method or url, and a body that \<^verbatim>\<open>JSON.stringify\<close> rejects or leaves out,
  such as a cyclic object, a bigint or a function, are not values of the model.)
\<close>

theorem log_request_payload:
  assumes "truthy request"
    and "to_string (own_prop request ''method'') = Inr m"
    and "to_string (own_prop request ''url'') = Inr u"
    and "fetch (conf l) = Node_fetch"
    and "to_string (key (conf l)) = Inr k" and "to_string (source (conf l)) = Inr s"
  shows "\<exists>call.
     log_request l request w =
       (Inr (Pending call),
        w @ [Console Console_log
               (JStr (displayName (name l) @ '' '' @ m @ '' '' @ u)
                # (if truthy (own_prop request ''body'') then [own_prop request ''body''] else [])),
             Fetch call])
     \<and> json_field (fetch_body call) ''log_entry'' =
         Some (JsonStr (displayName (name l) @ '' '' @ m @ '' '' @ u))
     \<and> json_field (json_field (fetch_body call) ''metadata'') ''level'' = Some (JsonStr ''info'')
     \<and> json_field (json_field (fetch_body call) ''metadata'') ''data'' =
         (if truthy (own_prop request ''body'') then stringify (own_prop request ''body'') else None)
     \<and> (truthy (own_prop request ''body'') \<longrightarrow> stringify (own_prop request ''body'') \<noteq> None)"
proof -
  let ?body = "own_prop request ''body''"
  let ?msg = "displayName (name l) @ '' '' @ m @ '' '' @ u"
  let ?c = "Console Console_log (JStr ?msg # (if truthy ?body then [?body] else []))"
  obtain call where call:
    "logRemotely l ?msg (if truthy ?body then ?body else JUndefined) ''info'' (w @ [?c])
       = (Inr (Pending call), w @ [?c, Fetch call])"
    "json_field (fetch_body call) ''log_entry'' = Some (JsonStr ?msg)"
    "json_field (json_field (fetch_body call) ''metadata'') ''data''
       = stringify (if truthy ?body then ?body else JUndefined)"
    "json_field (json_field (fetch_body call) ''metadata'') ''level'' = Some (JsonStr ''info'')"
    using logRemotely_after_console [OF assms(4-6)] by blast
  have "log_request l request w = (Inr (Pending call), w @ [?c, Fetch call])"
    using assms(1-3) call(1) by (simp add: log_request_eq)
  moreover have "truthy ?body \<longrightarrow> stringify ?body \<noteq> None"
    by (auto simp: stringify_None_iff)
  ultimately show ?thesis
    using call(2-4) by (intro exI [of _ call]) simp
qed

theorem log_request_payload_witness:
  "\<exists>call.
     log_request fake_logger
         (JObj [(''method'', JStr ''POST''), (''url'', JStr ''/post''), (''body'', JStr ''body'')]) [] =
       (Inr (Pending call), [Console Console_log [JStr ''[name] POST /post'', JStr ''body''], Fetch call])
     \<and> json_field (fetch_body call) ''log_entry'' = Some (JsonStr ''[name] POST /post'')
     \<and> json_field (json_field (fetch_body call) ''metadata'') ''level'' = Some (JsonStr ''info'')
     \<and> json_field (json_field (fetch_body call) ''metadata'') ''data'' = Some (JsonStr ''body'')"
proof -
  have sends: "fetch (conf fake_logger) = Node_fetch"
    "to_string (key (conf fake_logger)) = Inr ''string''"
    "to_string (source (conf fake_logger)) = Inr ''string''"
    using fake_logger_sends by simp_all
  show ?thesis
    using log_request_payload
      [of "JObj [(''method'', JStr ''POST''), (''url'', JStr ''/post''), (''body'', JStr ''body'')]"
        "''POST''" "''/post''" fake_logger "''string''" "''string''" "[]", OF _ _ _ sends]
    by (simp add: fake_logger_def displayName_def split_def)
qed

text \<open>
  C2 as stated fails: for the logger named \<^verbatim>\<open>test\<close> and the request
  \<^verbatim>\<open>{ method: 'POST', url: '/post' }\<close> of the tests, the \<^verbatim>\<open>log_entry\<close> sent is
  \<^verbatim>\<open>[test] POST /post\<close>, not \<^verbatim>\<open>POST /post\<close>.
\<close>

theorem log_request_log_entry_counterexample:
  "json_field
     (getFetchBody (snd (log_request \<lparr>conf = fake_config, name = ''test''\<rparr>
        (JObj [(''method'', JStr ''POST''), (''url'', JStr ''/post'')]) [])))
     ''log_entry''
   = Some (JsonStr ''[test] POST /post'')
   \<and> json_field
     (getFetchBody (snd (log_request \<lparr>conf = fake_config, name = ''test''\<rparr>
        (JObj [(''method'', JStr ''POST''), (''url'', JStr ''/post'')]) [])))
     ''log_entry''
   \<noteq> Some (JsonStr ''POST /post'')"
proof -
  have sends: "fetch (conf \<lparr>conf = fake_config, name = ''test''\<rparr>) = Node_fetch"
    "to_string (key (conf \<lparr>conf = fake_config, name = ''test''\<rparr>)) = Inr ''string''"
    "to_string (source (conf \<lparr>conf = fake_config, name = ''test''\<rparr>)) = Inr ''string''"
    by (simp_all add: fake_config_def)
  show ?thesis
    by (simp add: log_request_eq logRemotely_sends [OF sends] displayName_def split_def
        getFetchBody_def)
qed

section \<open>Notes\<close>

text \<open>
  C3, amended. For every logger, every message and every notes object with distinct
  keys: when the message converts to a string, the formatted message is the display
  name, a space and that string, followed, when some note is truthy, by the suffix
  \<^verbatim>\<open>" (k1, k2, ...)"\<close> of exactly the keys whose value is truthy, in the order in which
  JavaScript enumerates the keys of an object: the keys that are array indices first, in
  ascending numeric order, then the other keys in the order of their insertion. When no
  key is an array index this is the order of insertion. When the message does not
  convert to a string, the routine throws the TypeError of the conversion, with notes
  and without. When the object is empty or every value is falsy, the result is the one of
  a call without notes. (The amendments: the place of the keys that are array indices,
  and the conversion of the message.)
\<close>

theorem notes_suffix:
  assumes "distinct (map fst ps)"
  shows "createMessage l message (JObj ps) =
           (case to_string message of
              Inl err \<Rightarrow> Inl err
            | Inr m \<Rightarrow>
                Inr (displayName (name l) @ '' '' @ m @
                  (if \<exists>p\<in>set ps. truthy (snd p)
                   then '' ('' @ join '', ''
                          (map fst (filter (\<lambda>p. truthy (snd p)) (enumerable ps))) @ '')''
                   else [])))
    \<and> createMessage l message JUndefined =
           (case to_string message of
              Inl err \<Rightarrow> Inl err
            | Inr m \<Rightarrow> Inr (displayName (name l) @ '' '' @ m))
    \<and> enumerable ps = filter (\<lambda>p. is_array_index (fst p)) (enumerable ps)
         @ filter (\<lambda>p. \<not> is_array_index (fst p)) ps
    \<and> sorted (map (\<lambda>p. parse_decimal (fst p)) (filter (\<lambda>p. is_array_index (fst p)) (enumerable ps)))
    \<and> set (enumerable ps) = set ps
    \<and> ((\<forall>p\<in>set ps. \<not> is_array_index (fst p)) \<longrightarrow> enumerable ps = ps)
    \<and> ((\<forall>p\<in>set ps. \<not> truthy (snd p)) \<longrightarrow>
          createMessage l message (JObj ps) = createMessage l message JUndefined)"
proof -
  let ?ks = "map fst (filter (\<lambda>p. truthy (snd p)) (enumerable ps))"
  have ks: "?ks \<noteq> [] \<longleftrightarrow> (\<exists>p\<in>set ps. truthy (snd p))"
    by (auto simp: filter_empty_conv set_enumerable)
  have "createMessage l message (JObj ps) =
      (case to_string message of
         Inl err \<Rightarrow> Inl err
       | Inr m \<Rightarrow>
           Inr (displayName (name l) @ '' '' @ m
             @ (if ?ks \<noteq> [] then '' ('' @ join '', '' ?ks @ '')'' else [])))"
    unfolding createMessage_def Let_def truthyNotes_pairs [OF assms] by simp
  then have first: "createMessage l message (JObj ps) =
           (case to_string message of
              Inl err \<Rightarrow> Inl err
            | Inr m \<Rightarrow>
                Inr (displayName (name l) @ '' '' @ m @
                  (if \<exists>p\<in>set ps. truthy (snd p) then '' ('' @ join '', '' ?ks @ '')'' else [])))"
    unfolding ks .
  have without: "createMessage l message JUndefined =
           (case to_string message of
              Inl err \<Rightarrow> Inl err
            | Inr m \<Rightarrow> Inr (displayName (name l) @ '' '' @ m))"
    by (simp add: createMessage_def split: sum.split)
  have last: "(\<forall>p\<in>set ps. \<not> truthy (snd p)) \<longrightarrow>
          createMessage l message (JObj ps) = createMessage l message JUndefined"
    unfolding first without by (simp split: sum.split)
  have no_index: "(\<forall>p\<in>set ps. \<not> is_array_index (fst p)) \<longrightarrow> enumerable ps = ps"
    by (simp add: enumerable_no_index)
  show ?thesis
    by (intro conjI first without last no_index enumerable_split
        enumerable_indices_sorted set_enumerable)
qed

theorem notes_suffix_witness:
  "createMessage \<lparr>conf = fake_config, name = ''test-title''\<rparr> (JStr ''Test message.'')
      (JObj [(''note 1'', JBool True), (''note 2'', JBool False), (''note 3'', JNum 1),
             (''note 4'', JStr ''ok'')])
     = Inr ''[test-title] Test message. (note 1, note 3, note 4)''
   \<and> createMessage \<lparr>conf = fake_config, name = ''test-title''\<rparr> (JStr ''Test message.'')
      (JObj [(''note 1'', JBool False), (''note 2'', JBool False), (''note 3'', JBool False)])
     = createMessage \<lparr>conf = fake_config, name = ''test-title''\<rparr> (JStr ''Test message.'') JUndefined
   \<and> createMessage \<lparr>conf = fake_config, name = ''test-title''\<rparr> (JStr ''Test message.'') (JObj [])
     = Inr ''[test-title] Test message.''
   \<and> createMessage \<lparr>conf = fake_config, name = ''test-title''\<rparr> (JObj [(''toString'', JNum 1)])
      (JObj [(''note 1'', JBool True)])
     = Inl (TypeError ''Cannot convert object to primitive value'')"
  using
    notes_suffix [of "[(''note 1'', JBool True), (''note 2'', JBool False), (''note 3'', JNum 1),
             (''note 4'', JStr ''ok'')]" "\<lparr>conf = fake_config, name = ''test-title''\<rparr>" "JStr ''Test message.''"]
    notes_suffix [of "[(''note 1'', JBool False), (''note 2'', JBool False), (''note 3'', JBool False)]"
       "\<lparr>conf = fake_config, name = ''test-title''\<rparr>" "JStr ''Test message.''"]
    notes_suffix [of "[]" "\<lparr>conf = fake_config, name = ''test-title''\<rparr>" "JStr ''Test message.''"]
    notes_suffix [of "[(''note 1'', JBool True)]" "\<lparr>conf = fake_config, name = ''test-title''\<rparr>"
       "JObj [(''toString'', JNum 1)]"]
  by (simp add: displayName_def split_def enumerable_def not_array_index_letter is_digit_def)

text \<open>
  C3 as stated fails for a key that is an array index: for the notes
  \<^verbatim>\<open>{ b: true, 1: true }\<close>, whose order of insertion is \<^verbatim>\<open>b\<close>, \<^verbatim>\<open>1\<close>, the suffix is
  \<^verbatim>\<open>(1, b)\<close>.
\<close>

theorem notes_order_counterexample:
  "createMessage fake_logger (JStr ''m'') (JObj [(''b'', JBool True), (''1'', JBool True)])
     = Inr ''[name] m (1, b)''
   \<and> createMessage fake_logger (JStr ''m'') (JObj [(''b'', JBool True), (''1'', JBool True)])
     \<noteq> Inr ''[name] m (b, 1)''"
  by (simp add: createMessage_def fake_logger_def displayName_def split_def enumerable_def
      is_array_index_def is_digit_def parse_decimal_def digit_val_def digit_char_def)

section \<open>Compound names\<close>

text \<open>
  C4, amended. For every logger and all truthy names \<open>b\<close> and \<open>c\<close> that convert to strings,
  \<open>append\<close> returns a new logger with the same configuration whose name is the current
  name, \<^verbatim>\<open>+\<close>, and the string of the new name; its prefix is the prefix of the current
  logger, a space, and the new name rendered as a display name, and likewise after a
  second \<open>append\<close>. When none of the three names contains \<^verbatim>\<open>+\<close>, the prefixes are
  \<^verbatim>\<open>[a] [b]\<close> and \<^verbatim>\<open>[a] [b] [c]\<close>. The new loggers format their messages with their
  prefixes and, where the configuration sends, log with them; the original logger, a
  value that \<open>append\<close> only reads, keeps its own prefix. (The amendments: the names
  contain no \<^verbatim>\<open>+\<close>, since a name is split at every \<^verbatim>\<open>+\<close>, and the new names convert to
  strings, which an object with an own \<^verbatim>\<open>toString\<close> property does not.)
\<close>

theorem append_compound_name:
  assumes "truthy b" and "truthy c"
    and "to_string b = Inr sb" and "to_string c = Inr sc"
  shows "\<exists>l2 l3.
     log_append l b = Inr l2 \<and> log_append l2 c = Inr l3
     \<and> conf l2 = conf l \<and> name l2 = name l @ ''+'' @ sb
     \<and> conf l3 = conf l \<and> name l3 = name l @ ''+'' @ sb @ ''+'' @ sc
     \<and> displayName (name l2) = displayName (name l) @ '' '' @ displayName sb
     \<and> displayName (name l3) =
         displayName (name l) @ '' '' @ displayName sb @ '' '' @ displayName sc
     \<and> (CHR ''+'' \<notin> set (name l) \<and> CHR ''+'' \<notin> set sb \<and> CHR ''+'' \<notin> set sc \<longrightarrow>
          displayName (name l2) = ''['' @ name l @ ''] ['' @ sb @ '']''
          \<and> displayName (name l3) = ''['' @ name l @ ''] ['' @ sb @ ''] ['' @ sc @ '']'')
     \<and> (\<forall>m. createMessage l2 (JStr m) JUndefined = Inr (displayName (name l2) @ '' '' @ m)
          \<and> createMessage l3 (JStr m) JUndefined = Inr (displayName (name l3) @ '' '' @ m)
          \<and> createMessage l (JStr m) JUndefined = Inr (displayName (name l) @ '' '' @ m))
     \<and> (fetch (conf l) = Node_fetch \<and> to_string (key (conf l)) = Inr k
          \<and> to_string (source (conf l)) = Inr s \<longrightarrow>
        (\<forall>m w. m \<noteq> [] \<longrightarrow>
          (\<exists>call. log l2 (JStr m) JUndefined JUndefined w =
             (Inr (Pending call),
              w @ [Console Console_log [JStr (displayName (name l2) @ '' '' @ m)], Fetch call]))
          \<and> (\<exists>call. log l3 (JStr m) JUndefined JUndefined w =
             (Inr (Pending call),
              w @ [Console Console_log [JStr (displayName (name l3) @ '' '' @ m)], Fetch call]))
          \<and> (\<exists>call. log l (JStr m) JUndefined JUndefined w =
             (Inr (Pending call),
              w @ [Console Console_log [JStr (displayName (name l) @ '' '' @ m)], Fetch call]))))"
proof -
  let ?l2 = "\<lparr>conf = conf l, name = name l @ ''+'' @ sb\<rparr>"
  let ?l3 = "\<lparr>conf = conf l, name = name l @ ''+'' @ sb @ ''+'' @ sc\<rparr>"
  have l2: "log_append l b = Inr ?l2"
    using assms(1,3) by (rule log_append_eq)
  have l3: "log_append ?l2 c = Inr ?l3"
    using assms(2,4) by (simp add: log_append_eq)
  have d2: "displayName (name ?l2) = displayName (name l) @ '' '' @ displayName sb"
    by (simp add: displayName_append)
  have d3: "displayName (name ?l3) =
      displayName (name l) @ '' '' @ displayName sb @ '' '' @ displayName sc"
    by (simp add: displayName_append)
  have plain: "CHR ''+'' \<notin> set (name l) \<and> CHR ''+'' \<notin> set sb \<and> CHR ''+'' \<notin> set sc \<longrightarrow>
          displayName (name ?l2) = ''['' @ name l @ ''] ['' @ sb @ '']''
          \<and> displayName (name ?l3) = ''['' @ name l @ ''] ['' @ sb @ ''] ['' @ sc @ '']''"
    unfolding d2 d3 by (simp add: displayName_simple)
  have formats: "\<forall>m. createMessage ?l2 (JStr m) JUndefined = Inr (displayName (name ?l2) @ '' '' @ m)
          \<and> createMessage ?l3 (JStr m) JUndefined = Inr (displayName (name ?l3) @ '' '' @ m)
          \<and> createMessage l (JStr m) JUndefined = Inr (displayName (name l) @ '' '' @ m)"
    by (simp add: createMessage_def)
  have logs: "fetch (conf l) = Node_fetch \<and> to_string (key (conf l)) = Inr k
          \<and> to_string (source (conf l)) = Inr s \<longrightarrow>
        (\<forall>m w. m \<noteq> [] \<longrightarrow>
          (\<exists>call. log ?l2 (JStr m) JUndefined JUndefined w =
             (Inr (Pending call),
              w @ [Console Console_log [JStr (displayName (name ?l2) @ '' '' @ m)], Fetch call]))
          \<and> (\<exists>call. log ?l3 (JStr m) JUndefined JUndefined w =
             (Inr (Pending call),
              w @ [Console Console_log [JStr (displayName (name ?l3) @ '' '' @ m)], Fetch call]))
          \<and> (\<exists>call. log l (JStr m) JUndefined JUndefined w =
             (Inr (Pending call),
              w @ [Console Console_log [JStr (displayName (name l) @ '' '' @ m)], Fetch call])))"
  proof (intro impI allI)
    fix m :: string and w :: world
    assume h: "fetch (conf l) = Node_fetch \<and> to_string (key (conf l)) = Inr k
          \<and> to_string (source (conf l)) = Inr s" and m: "m \<noteq> []"
    have h2: "fetch (conf ?l2) = Node_fetch" "to_string (key (conf ?l2)) = Inr k"
      "to_string (source (conf ?l2)) = Inr s"
      using h by simp_all
    have h3: "fetch (conf ?l3) = Node_fetch" "to_string (key (conf ?l3)) = Inr k"
      "to_string (source (conf ?l3)) = Inr s"
      using h by simp_all
    have h1: "fetch (conf l) = Node_fetch" "to_string (key (conf l)) = Inr k"
      "to_string (source (conf l)) = Inr s"
      using h by simp_all
    show "(\<exists>call. log ?l2 (JStr m) JUndefined JUndefined w =
             (Inr (Pending call),
              w @ [Console Console_log [JStr (displayName (name ?l2) @ '' '' @ m)], Fetch call]))
          \<and> (\<exists>call. log ?l3 (JStr m) JUndefined JUndefined w =
             (Inr (Pending call),
              w @ [Console Console_log [JStr (displayName (name ?l3) @ '' '' @ m)], Fetch call]))
          \<and> (\<exists>call. log l (JStr m) JUndefined JUndefined w =
             (Inr (Pending call),
              w @ [Console Console_log [JStr (displayName (name l) @ '' '' @ m)], Fetch call]))"
      by (intro conjI log_plain [OF h2 m] log_plain [OF h3 m] log_plain [OF h1 m])
  qed
  have sel: "conf ?l2 = conf l" "name ?l2 = name l @ ''+'' @ sb"
    "conf ?l3 = conf l" "name ?l3 = name l @ ''+'' @ sb @ ''+'' @ sc"
    by simp_all
  show ?thesis
    by (rule exI [of _ ?l2], rule exI [of _ ?l3]) (intro conjI l2 l3 sel d2 d3 plain formats logs)
qed

theorem append_compound_name_witness:
  "\<exists>l2 l3.
     log_append \<lparr>conf = fake_config, name = ''one''\<rparr> (JStr ''two'') = Inr l2
     \<and> log_append l2 (JStr ''three'') = Inr l3
     \<and> name l2 = ''one+two'' \<and> name l3 = ''one+two+three''
     \<and> displayName (name l2) = ''[one] [two]''
     \<and> displayName (name l3) = ''[one] [two] [three]''
     \<and> (\<exists>call. log l2 (JStr ''Message.'') JUndefined JUndefined [] =
           (Inr (Pending call),
            [Console Console_log [JStr ''[one] [two] Message.''], Fetch call]))
     \<and> (\<exists>call. log \<lparr>conf = fake_config, name = ''one''\<rparr> (JStr ''Message.'') JUndefined JUndefined [] =
           (Inr (Pending call),
            [Console Console_log [JStr ''[one] Message.''], Fetch call]))"
proof -
  let ?one = "\<lparr>conf = fake_config, name = ''one''\<rparr>"
  have sends: "fetch (conf ?one) = Node_fetch \<and> to_string (key (conf ?one)) = Inr ''string''
      \<and> to_string (source (conf ?one)) = Inr ''string''"
    by (simp add: fake_config_def)
  have "truthy (JStr ''two'')" "truthy (JStr ''three'')"
    "to_string (JStr ''two'') = Inr ''two''" "to_string (JStr ''three'') = Inr ''three''"
    by simp_all
  from append_compound_name [OF this, of ?one "''string''" "''string''"]
  obtain l2 l3 where
    a: "log_append ?one (JStr ''two'') = Inr l2"
      "log_append l2 (JStr ''three'') = Inr l3"
      "name l2 = name ?one @ ''+'' @ ''two''"
      "name l3 = name ?one @ ''+'' @ ''two'' @ ''+'' @ ''three''"
      "displayName (name l2) = displayName (name ?one) @ '' '' @ displayName ''two''"
      "displayName (name l3) =
         displayName (name ?one) @ '' '' @ displayName ''two'' @ '' '' @ displayName ''three''"
    and logs: "fetch (conf ?one) = Node_fetch \<and> to_string (key (conf ?one)) = Inr ''string''
          \<and> to_string (source (conf ?one)) = Inr ''string'' \<longrightarrow>
        (\<forall>m w. m \<noteq> [] \<longrightarrow>
          (\<exists>call. log l2 (JStr m) JUndefined JUndefined w =
             (Inr (Pending call),
              w @ [Console Console_log [JStr (displayName (name l2) @ '' '' @ m)], Fetch call]))
          \<and> (\<exists>call. log l3 (JStr m) JUndefined JUndefined w =
             (Inr (Pending call),
              w @ [Console Console_log [JStr (displayName (name l3) @ '' '' @ m)], Fetch call]))
          \<and> (\<exists>call. log ?one (JStr m) JUndefined JUndefined w =
             (Inr (Pending call),
              w @ [Console Console_log [JStr (displayName (name ?one) @ '' '' @ m)], Fetch call])))"
    by blast
  have m: "''Message.'' \<noteq> []" by simp
  from logs [rule_format, OF sends m, of "[]"] a(5)
  have "(\<exists>call. log l2 (JStr ''Message.'') JUndefined JUndefined [] =
           (Inr (Pending call),
            [Console Console_log [JStr ''[one] [two] Message.''], Fetch call]))
     \<and> (\<exists>call. log ?one (JStr ''Message.'') JUndefined JUndefined [] =
           (Inr (Pending call),
            [Console Console_log [JStr ''[one] Message.''], Fetch call]))"
    by (simp add: displayName_def split_def)
  moreover have "name l2 = ''one+two''" "name l3 = ''one+two+three''"
    "displayName (name l2) = ''[one] [two]''"
    "displayName (name l3) = ''[one] [two] [three]''"
    using a(3-6) by (simp_all add: displayName_def split_def)
  ultimately show ?thesis
    using a(1,2) by blast
qed

text \<open>
  C4 as stated fails for a name that contains \<^verbatim>\<open>+\<close>: appending \<^verbatim>\<open>z\<close> to the logger
  named \<^verbatim>\<open>x+y\<close> gives the prefix \<^verbatim>\<open>[x] [y] [z]\<close>, not \<^verbatim>\<open>[x+y] [z]\<close>.
\<close>

theorem append_plus_counterexample:
  "log_append \<lparr>conf = fake_config, name = ''x+y''\<rparr> (JStr ''z'')
     = Inr \<lparr>conf = fake_config, name = ''x+y+z''\<rparr>
   \<and> displayName ''x+y+z'' = ''[x] [y] [z]''
   \<and> displayName ''x+y+z'' \<noteq> ''[x+y] [z]''"
  by (simp add: log_append_def configureLogger_def displayName_def split_def)

section \<open>The remote request\<close>

text \<open>
  C5. For every logger of a configuration that \<^verbatim>\<open>module.exports\<close> accepted, a remote send
  is issued only by \<open>logRemotely\<close>, and only when the key and the source convert to
  strings and \<^verbatim>\<open>fetch\<close> is a function (otherwise \<open>logRemotely\<close> throws and sends nothing).
  The send is one call of \<^verbatim>\<open>fetch\<close> with the URL
  \<^verbatim>\<open>https://api.logflare.app/logs?api_key={key}&source={source}\<close>, where key and source
  are the values of the options, unescaped (a string is inserted as it is), with the
  method \<^verbatim>\<open>POST\<close>, the header \<^verbatim>\<open>Content-Type: application/json; charset=UTF-8\<close>, and as
  body the JSON text of \<^verbatim>\<open>log_entry\<close> and \<^verbatim>\<open>metadata\<close>, the metadata holding
  \<^verbatim>\<open>application\<close>, \<^verbatim>\<open>level\<close>, \<^verbatim>\<open>mode\<close> and a member \<^verbatim>\<open>data\<close> that is present only when a
  value of data was passed (absent exactly for \<^verbatim>\<open>undefined\<close>). The operations pass to
  it: \<open>log\<close> and \<open>log.error\<close> on a string their argument \<open>data\<close> when it is truthy and
  nothing otherwise, \<open>log.request\<close> the body of the request when it is truthy and nothing
  otherwise, \<open>log.error\<close> on an object the object \<^verbatim>\<open>{ stack, error }\<close>.
\<close>

theorem remote_request_shape:
  assumes "module_exports options = Inr cfg" and "conf l = cfg"
  shows "\<exists>ja jm.
     stringify (application cfg) = Some ja \<and> stringify (mode cfg) = Some jm
     \<and> logRemotely l message d level w =
         (case to_string (key cfg) of Inl err \<Rightarrow> (Inl err, w) | Inr k \<Rightarrow>
          case to_string (source cfg) of Inl err \<Rightarrow> (Inl err, w) | Inr s \<Rightarrow>
          if truthy (own_prop options ''fetch'')
          then (Inl (TypeError ''fetch is not a function''), w)
          else
            (let call =
               \<lparr>fetch_url = ''https://api.logflare.app/logs?api_key='' @ k @ ''&source='' @ s,
                fetch_method = ''POST'',
                fetch_headers = [(''Content-Type'', ''application/json; charset=UTF-8'')],
                fetch_body = Some (JsonObj
                  [(''log_entry'', JsonStr message),
                   (''metadata'', JsonObj
                      ([(''application'', ja)]
                       @ (case stringify d of None \<Rightarrow> [] | Some jd \<Rightarrow> [(''data'', jd)])
                       @ [(''level'', JsonStr level), (''mode'', jm)]))])\<rparr>
             in (Inr (Pending call), w @ [Fetch call])))
     \<and> (stringify d = None \<longleftrightarrow> d = JUndefined)
     \<and> key cfg = own_prop options ''key'' \<and> source cfg = own_prop options ''source''
     \<and> (\<forall>ks. key cfg = JStr ks \<longrightarrow> to_string (key cfg) = Inr ks)
     \<and> (\<forall>ss. source cfg = JStr ss \<longrightarrow> to_string (source cfg) = Inr ss)
     \<and> (truthy msg \<longrightarrow>
          log l msg dt nts w =
            (case createMessage l msg nts of
               Inl err \<Rightarrow> (Inl err, w)
             | Inr full \<Rightarrow>
                 logRemotely l full (if truthy dt then dt else JUndefined) ''info''
                   (w @ [Console Console_log (JStr full # (if truthy dt then [dt] else []))])))
     \<and> (truthy rq \<longrightarrow>
          log_request l rq w =
            (case to_string (own_prop rq ''method'') of Inl err \<Rightarrow> (Inl err, w) | Inr rm \<Rightarrow>
             case to_string (own_prop rq ''url'') of Inl err \<Rightarrow> (Inl err, w) | Inr ru \<Rightarrow>
               logRemotely l (displayName (name l) @ '' '' @ rm @ '' '' @ ru)
                 (if truthy (own_prop rq ''body'') then own_prop rq ''body'' else JUndefined)
                 ''info''
                 (w @ [Console Console_log
                    (JStr (displayName (name l) @ '' '' @ rm @ '' '' @ ru)
                     # (if truthy (own_prop rq ''body'') then [own_prop rq ''body''] else []))])))
     \<and> (es \<noteq> [] \<longrightarrow>
          log_error l (JStr es) dt w =
            logRemotely l (displayName (name l) @ '' '' @ es)
              (if truthy dt then dt else JUndefined) ''error''
              (w @ [Console Console_error
                 (JStr (displayName (name l) @ '' '' @ es) # (if truthy dt then [dt] else []))]))
     \<and> (truthy e \<and> typeof e = ''object'' \<longrightarrow>
          log_error l e dt w =
            (case to_string (own_prop e ''message'') of
               Inl err \<Rightarrow> (Inl err, w)
             | Inr em \<Rightarrow>
                 logRemotely l (displayName (name l) @ '' '' @ em)
                   (JObj [(''stack'', own_prop e ''stack''), (''error'', e)]) ''error''
                   (w @ [Console Console_error
                      [JStr (displayName (name l) @ '' '' @ em),
                       JObj [(''stack'', own_prop e ''stack''), (''error'', e)]]])))"
proof -
  from assms(1) have t: "truthy (application cfg)" "truthy (mode cfg)"
    and k: "key cfg = own_prop options ''key''" "source cfg = own_prop options ''source''"
    and f: "fetch cfg = (if truthy (own_prop options ''fetch'')
                         then Given (own_prop options ''fetch'') else Node_fetch)"
    using module_exports_Inr by blast+
  from t obtain ja jm where j: "stringify (application cfg) = Some ja" "stringify (mode cfg) = Some jm"
    using truthy_stringify by blast
  have send: "logRemotely l message d level w =
         (case to_string (key cfg) of Inl err \<Rightarrow> (Inl err, w) | Inr k \<Rightarrow>
          case to_string (source cfg) of Inl err \<Rightarrow> (Inl err, w) | Inr s \<Rightarrow>
          if truthy (own_prop options ''fetch'')
          then (Inl (TypeError ''fetch is not a function''), w)
          else
            (let call =
               \<lparr>fetch_url = ''https://api.logflare.app/logs?api_key='' @ k @ ''&source='' @ s,
                fetch_method = ''POST'',
                fetch_headers = [(''Content-Type'', ''application/json; charset=UTF-8'')],
                fetch_body = Some (JsonObj
                  [(''log_entry'', JsonStr message),
                   (''metadata'', JsonObj
                      ([(''application'', ja)]
                       @ (case stringify d of None \<Rightarrow> [] | Some jd \<Rightarrow> [(''data'', jd)])
                       @ [(''level'', JsonStr level), (''mode'', jm)]))])\<rparr>
             in (Inr (Pending call), w @ [Fetch call])))"
    unfolding logRemotely_def Let_def stringify_payload
    using j f assms(2) by (simp add: json_member_def split: sum.split)
  have strings: "\<forall>ks. key cfg = JStr ks \<longrightarrow> to_string (key cfg) = Inr ks"
    "\<forall>ss. source cfg = JStr ss \<longrightarrow> to_string (source cfg) = Inr ss"
    by simp_all
  have op_log: "truthy msg \<longrightarrow>
          log l msg dt nts w =
            (case createMessage l msg nts of
               Inl err \<Rightarrow> (Inl err, w)
             | Inr full \<Rightarrow>
                 logRemotely l full (if truthy dt then dt else JUndefined) ''info''
                   (w @ [Console Console_log (JStr full # (if truthy dt then [dt] else []))]))"
    by (simp add: log_eq)
  have op_request: "truthy rq \<longrightarrow>
          log_request l rq w =
            (case to_string (own_prop rq ''method'') of Inl err \<Rightarrow> (Inl err, w) | Inr rm \<Rightarrow>
             case to_string (own_prop rq ''url'') of Inl err \<Rightarrow> (Inl err, w) | Inr ru \<Rightarrow>
               logRemotely l (displayName (name l) @ '' '' @ rm @ '' '' @ ru)
                 (if truthy (own_prop rq ''body'') then own_prop rq ''body'' else JUndefined)
                 ''info''
                 (w @ [Console Console_log
                    (JStr (displayName (name l) @ '' '' @ rm @ '' '' @ ru)
                     # (if truthy (own_prop rq ''body'') then [own_prop rq ''body''] else []))]))"
    using log_request_eq [of rq l w] by blast
  have op_error_string: "es \<noteq> [] \<longrightarrow>
          log_error l (JStr es) dt w =
            logRemotely l (displayName (name l) @ '' '' @ es)
              (if truthy dt then dt else JUndefined) ''error''
              (w @ [Console Console_error
                 (JStr (displayName (name l) @ '' '' @ es) # (if truthy dt then [dt] else []))])"
    using log_error_string_eq [of es l dt w] by blast
  have op_error_object: "truthy e \<and> typeof e = ''object'' \<longrightarrow>
          log_error l e dt w =
            (case to_string (own_prop e ''message'') of
               Inl err \<Rightarrow> (Inl err, w)
             | Inr em \<Rightarrow>
                 logRemotely l (displayName (name l) @ '' '' @ em)
                   (JObj [(''stack'', own_prop e ''stack''), (''error'', e)]) ''error''
                   (w @ [Console Console_error
                      [JStr (displayName (name l) @ '' '' @ em),
                       JObj [(''stack'', own_prop e ''stack''), (''error'', e)]]]))"
    using log_error_object_eq [of e l dt w] by blast
  show ?thesis
    by (rule exI [of _ ja], rule exI [of _ jm])
      (intro conjI j send stringify_None_iff k strings op_log op_request op_error_string
        op_error_object)
qed

theorem remote_request_shape_witness:
  "log fake_logger (JStr ''message'') (JStr ''data'') JUndefined [] =
     (Inr (Pending
        \<lparr>fetch_url = ''https://api.logflare.app/logs?api_key=string&source=string'',
         fetch_method = ''POST'',
         fetch_headers = [(''Content-Type'', ''application/json; charset=UTF-8'')],
         fetch_body = Some (JsonObj
           [(''log_entry'', JsonStr ''[name] message''),
            (''metadata'', JsonObj
               [(''application'', JsonStr ''string''), (''data'', JsonStr ''data''),
                (''level'', JsonStr ''info''), (''mode'', JsonStr ''string'')])])\<rparr>),
      [Console Console_log [JStr ''[name] message'', JStr ''data''],
       Fetch
        \<lparr>fetch_url = ''https://api.logflare.app/logs?api_key=string&source=string'',
         fetch_method = ''POST'',
         fetch_headers = [(''Content-Type'', ''application/json; charset=UTF-8'')],
         fetch_body = Some (JsonObj
           [(''log_entry'', JsonStr ''[name] message''),
            (''metadata'', JsonObj
               [(''application'', JsonStr ''string''), (''data'', JsonStr ''data''),
                (''level'', JsonStr ''info''), (''mode'', JsonStr ''string'')])])\<rparr>])
   \<and> log fake_logger (JStr ''message'') JUndefined JUndefined [] =
     (Inr (Pending
        \<lparr>fetch_url = ''https://api.logflare.app/logs?api_key=string&source=string'',
         fetch_method = ''POST'',
         fetch_headers = [(''Content-Type'', ''application/json; charset=UTF-8'')],
         fetch_body = Some (JsonObj
           [(''log_entry'', JsonStr ''[name] message''),
            (''metadata'', JsonObj
               [(''application'', JsonStr ''string''),
                (''level'', JsonStr ''info''), (''mode'', JsonStr ''string'')])])\<rparr>),
      [Console Console_log [JStr ''[name] message''],
       Fetch
        \<lparr>fetch_url = ''https://api.logflare.app/logs?api_key=string&source=string'',
         fetch_method = ''POST'',
         fetch_headers = [(''Content-Type'', ''application/json; charset=UTF-8'')],
         fetch_body = Some (JsonObj
           [(''log_entry'', JsonStr ''[name] message''),
            (''metadata'', JsonObj
               [(''application'', JsonStr ''string''),
                (''level'', JsonStr ''info''), (''mode'', JsonStr ''string'')])])\<rparr>])"
proof -
  have created: "module_exports fake_options = Inr fake_config"
    using fake_logger_created by simp
  have bound: "conf fake_logger = fake_config"
    by (simp add: fake_logger_def)
  have full: "createMessage fake_logger (JStr ''message'') JUndefined = Inr ''[name] message''"
    by (simp add: createMessage_def fake_logger_def displayName_def split_def)
  show ?thesis
    using
      remote_request_shape [OF created bound, of "''[name] message''" "JStr ''data''" "''info''"
        "[Console Console_log [JStr ''[name] message'', JStr ''data'']]" "JStr ''message''"
        "JStr ''data''" JUndefined JUndefined "[]" JUndefined]
      remote_request_shape [OF created bound, of "''[name] message''" JUndefined "''info''"
        "[Console Console_log [JStr ''[name] message'']]" "JStr ''message''"
        JUndefined JUndefined JUndefined "[]" JUndefined]
      remote_request_shape [OF created bound, of "''[name] message''" "JStr ''data''" "''info''"
        "[]" "JStr ''message''" "JStr ''data''" JUndefined JUndefined "[]" JUndefined]
      remote_request_shape [OF created bound, of "''[name] message''" JUndefined "''info''"
        "[]" "JStr ''message''" JUndefined JUndefined JUndefined "[]" JUndefined]
    by (simp add: full fake_config_def fake_options_def Let_def)
qed

section \<open>The error log\<close>

text \<open>
  C6. For every truthy object passed to \<open>log.error\<close>, whatever the argument \<open>data\<close> is:
  when the \<^verbatim>\<open>message\<close> of the object does not convert to a string, \<open>log.error\<close> throws
  the TypeError of the conversion before any write. Otherwise it makes one write to
  \<^verbatim>\<open>console.error\<close>, whose arguments are the formatted message and the object
  \<^verbatim>\<open>{ stack: error.stack, error }\<close>; then it either throws, sending nothing, or makes
  one call of \<^verbatim>\<open>fetch\<close> whose metadata have as \<^verbatim>\<open>data\<close> the JSON text of that same
  object and as level \<^verbatim>\<open>error\<close>. For a truthy string the same holds with \<open>data\<close> in
  the place of the object, on the console and in the metadata, exactly when \<open>data\<close> is
  truthy, and with neither a second argument nor a member \<^verbatim>\<open>data\<close> otherwise; a truthy
  \<open>data\<close> has a JSON text. In both forms the call of \<^verbatim>\<open>fetch\<close> is made exactly when
  \<^verbatim>\<open>fetch\<close> is a function and the key and the source convert to strings.
\<close>

theorem log_error_data:
  "(truthy e \<and> typeof e = ''object'' \<longrightarrow>
      (case to_string (own_prop e ''message'') of
         Inl err \<Rightarrow> log_error l e data w = (Inl err, w)
       | Inr m \<Rightarrow>
           (\<exists>r sent.
              log_error l e data w =
                (r, w @ Console Console_error
                          [JStr (displayName (name l) @ '' '' @ m),
                           JObj [(''stack'', own_prop e ''stack''), (''error'', e)]] # sent)
              \<and> ((\<exists>err. r = Inl err \<and> sent = [])
                    \<or> (\<exists>call. r = Inr (Pending call) \<and> sent = [Fetch call]
                         \<and> json_field (json_field (fetch_body call) ''metadata'') ''data'' =
                             Some (JsonObj (json_member ''stack'' (own_prop e ''stack'')
                                            @ json_member ''error'' e))
                         \<and> json_field (json_field (fetch_body call) ''metadata'') ''level''
                             = Some (JsonStr ''error'')))
                 \<and> ((\<exists>call. r = Inr (Pending call)) \<longleftrightarrow>
                      fetch (conf l) = Node_fetch \<and> (\<exists>k. to_string (key (conf l)) = Inr k)
                        \<and> (\<exists>sc. to_string (source (conf l)) = Inr sc)))))
   \<and> (s \<noteq> [] \<longrightarrow>
      (\<exists>r sent.
         log_error l (JStr s) data w =
           (r, w @ Console Console_error
                     (JStr (displayName (name l) @ '' '' @ s)
                      # (if truthy data then [data] else [])) # sent)
         \<and> ((\<exists>err. r = Inl err \<and> sent = [])
               \<or> (\<exists>call. r = Inr (Pending call) \<and> sent = [Fetch call]
                    \<and> json_field (json_field (fetch_body call) ''metadata'') ''data'' =
                        (if truthy data then stringify data else None)
                    \<and> json_field (json_field (fetch_body call) ''metadata'') ''level''
                        = Some (JsonStr ''error'')))
            \<and> ((\<exists>call. r = Inr (Pending call)) \<longleftrightarrow>
                 fetch (conf l) = Node_fetch \<and> (\<exists>k. to_string (key (conf l)) = Inr k)
                   \<and> (\<exists>sc. to_string (source (conf l)) = Inr sc))))
   \<and> (truthy data \<longrightarrow> stringify data \<noteq> None)"
proof (intro conjI impI)
  assume a: "truthy e \<and> typeof e = ''object''"
  let ?metadata = "JObj [(''stack'', own_prop e ''stack''), (''error'', e)]"
  show "case to_string (own_prop e ''message'') of
           Inl err \<Rightarrow> log_error l e data w = (Inl err, w)
         | Inr m \<Rightarrow>
             (\<exists>r sent.
                log_error l e data w =
                  (r, w @ Console Console_error
                            [JStr (displayName (name l) @ '' '' @ m),
                             JObj [(''stack'', own_prop e ''stack''), (''error'', e)]] # sent)
                \<and> ((\<exists>err. r = Inl err \<and> sent = [])
                      \<or> (\<exists>call. r = Inr (Pending call) \<and> sent = [Fetch call]
                           \<and> json_field (json_field (fetch_body call) ''metadata'') ''data'' =
                               Some (JsonObj (json_member ''stack'' (own_prop e ''stack'')
                                              @ json_member ''error'' e))
                           \<and> json_field (json_field (fetch_body call) ''metadata'') ''level''
                               = Some (JsonStr ''error'')))
                   \<and> ((\<exists>call. r = Inr (Pending call)) \<longleftrightarrow>
                        fetch (conf l) = Node_fetch \<and> (\<exists>k. to_string (key (conf l)) = Inr k)
                          \<and> (\<exists>sc. to_string (source (conf l)) = Inr sc)))"
  proof (cases "to_string (own_prop e ''message'')")
    case (Inl err)
    with a show ?thesis
      by (simp add: log_error_object_eq)
  next
    case (Inr m)
    let ?c = "Console Console_error [JStr (displayName (name l) @ '' '' @ m), ?metadata]"
    have eq: "log_error l e data w =
        logRemotely l (displayName (name l) @ '' '' @ m) ?metadata ''error'' (w @ [?c])"
      using a Inr by (simp add: log_error_object_eq)
    show ?thesis
      unfolding Inr sum.case eq
      using logRemotely_outcome [of l "displayName (name l) @ '' '' @ m" ?metadata "''error''" w ?c]
      unfolding stringify_stack_error by blast
  qed
next
  assume s: "s \<noteq> []"
  let ?c = "Console Console_error
     (JStr (displayName (name l) @ '' '' @ s) # (if truthy data then [data] else []))"
  have eq: "log_error l (JStr s) data w =
      logRemotely l (displayName (name l) @ '' '' @ s)
        (if truthy data then data else JUndefined) ''error'' (w @ [?c])"
    using s by (rule log_error_string_eq)
  have d: "stringify (if truthy data then data else JUndefined)
      = (if truthy data then stringify data else None)"
    by simp
  show "\<exists>r sent.
           log_error l (JStr s) data w =
             (r, w @ Console Console_error
                       (JStr (displayName (name l) @ '' '' @ s)
                        # (if truthy data then [data] else [])) # sent)
           \<and> ((\<exists>err. r = Inl err \<and> sent = [])
                 \<or> (\<exists>call. r = Inr (Pending call) \<and> sent = [Fetch call]
                      \<and> json_field (json_field (fetch_body call) ''metadata'') ''data'' =
                          (if truthy data then stringify data else None)
                      \<and> json_field (json_field (fetch_body call) ''metadata'') ''level''
                          = Some (JsonStr ''error'')))
              \<and> ((\<exists>call. r = Inr (Pending call)) \<longleftrightarrow>
                   fetch (conf l) = Node_fetch \<and> (\<exists>k. to_string (key (conf l)) = Inr k)
                     \<and> (\<exists>sc. to_string (source (conf l)) = Inr sc))"
    unfolding eq
    using logRemotely_outcome [of l "displayName (name l) @ '' '' @ s"
        "if truthy data then data else JUndefined" "''error''" w ?c]
    unfolding d by blast
next
  assume "truthy data"
  then show "stringify data \<noteq> None"
    by (auto simp: stringify_None_iff)
qed

theorem log_error_data_witness:
  "(\<exists>call.
      log_error fake_logger (JError ''Error message.'' ''Error: Error message. at test.js'')
          (JStr ''ignored'') [] =
        (Inr (Pending call),
         [Console Console_error
            [JStr ''[name] Error message.'',
             JObj [(''stack'', JStr ''Error: Error message. at test.js''),
                   (''error'', JError ''Error message.'' ''Error: Error message. at test.js'')]],
          Fetch call])
      \<and> json_field (json_field (fetch_body call) ''metadata'') ''data'' =
          Some (JsonObj [(''stack'', JsonStr ''Error: Error message. at test.js''),
                         (''error'', JsonObj [])])
      \<and> json_field (json_field (fetch_body call) ''metadata'') ''level'' = Some (JsonStr ''error''))
   \<and> (\<exists>call.
      log_error fake_logger (JStr ''message'') (JObj [(''test'', JStr ''data'')]) [] =
        (Inr (Pending call),
         [Console Console_error [JStr ''[name] message'', JObj [(''test'', JStr ''data'')]],
          Fetch call])
      \<and> json_field (json_field (fetch_body call) ''metadata'') ''data'' =
          Some (JsonObj [(''test'', JsonStr ''data'')]))
   \<and> (\<exists>call.
      log_error fake_logger (JStr ''message'') JUndefined [] =
        (Inr (Pending call), [Console Console_error [JStr ''[name] message''], Fetch call])
      \<and> json_field (json_field (fetch_body call) ''metadata'') ''data'' = None)
   \<and> log_error fake_logger (JObj [(''message'', JObj [(''toString'', JNum 1)])]) JUndefined [] =
        (Inl (TypeError ''Cannot convert object to primitive value''), [])"
proof -
  let ?e = "JError ''Error message.'' ''Error: Error message. at test.js''"
  let ?metadata = "JObj [(''stack'', JStr ''Error: Error message. at test.js''), (''error'', ?e)]"
  have name: "displayName (name fake_logger) = ''[name]''"
    by (simp add: fake_logger_def displayName_def split_def)
  have sends: "fetch (conf fake_logger) = Node_fetch"
    "to_string (key (conf fake_logger)) = Inr ''string''"
    "to_string (source (conf fake_logger)) = Inr ''string''"
    using fake_logger_sends by simp_all
  have first: "\<exists>call.
      log_error fake_logger ?e (JStr ''ignored'') [] =
        (Inr (Pending call),
         [Console Console_error [JStr ''[name] Error message.'', ?metadata], Fetch call])
      \<and> json_field (json_field (fetch_body call) ''metadata'') ''data'' =
          Some (JsonObj [(''stack'', JsonStr ''Error: Error message. at test.js''),
                         (''error'', JsonObj [])])
      \<and> json_field (json_field (fetch_body call) ''metadata'') ''level'' = Some (JsonStr ''error'')"
    using log_error_data [of ?e fake_logger "JStr ''ignored''" "[]" "''message''"]
    by (auto simp: name sends json_member_def)
  have second: "\<exists>call.
      log_error fake_logger (JStr ''message'') (JObj [(''test'', JStr ''data'')]) [] =
        (Inr (Pending call),
         [Console Console_error [JStr ''[name] message'', JObj [(''test'', JStr ''data'')]],
          Fetch call])
      \<and> json_field (json_field (fetch_body call) ''metadata'') ''data'' =
          Some (JsonObj [(''test'', JsonStr ''data'')])"
    using log_error_data [of JUndefined fake_logger "JObj [(''test'', JStr ''data'')]" "[]"
        "''message''"]
    by (auto simp: name sends enumerable_def not_array_index_letter is_digit_def)
  have third: "\<exists>call.
      log_error fake_logger (JStr ''message'') JUndefined [] =
        (Inr (Pending call), [Console Console_error [JStr ''[name] message''], Fetch call])
      \<and> json_field (json_field (fetch_body call) ''metadata'') ''data'' = None"
    using log_error_data [of JUndefined fake_logger JUndefined "[]" "''message''"]
    by (auto simp: name sends)
  have fourth: "log_error fake_logger (JObj [(''message'', JObj [(''toString'', JNum 1)])]) JUndefined [] =
        (Inl (TypeError ''Cannot convert object to primitive value''), [])"
    using log_error_data [of "JObj [(''message'', JObj [(''toString'', JNum 1)])]" fake_logger
        JUndefined "[]" "''message''"]
    by simp
  show ?thesis
    by (intro conjI first second third fourth)
qed

section \<open>Configuration of the factory\<close>

text \<open>
  C7, amended. For every options value other than \<^verbatim>\<open>null\<close> (\<^verbatim>\<open>undefined\<close> stands for
  \<^verbatim>\<open>{}\<close>), \<^verbatim>\<open>module.exports\<close> throws the error
  \<^verbatim>\<open>[configureLogger] Called without all required properties.\<close> exactly when one of
  \<^verbatim>\<open>application\<close>, \<^verbatim>\<open>key\<close>, \<^verbatim>\<open>mode\<close>, \<^verbatim>\<open>source\<close> is absent or falsy; when all four are
  truthy it returns the function that creates loggers, bound to these four values and to
  the function that sends (the value of \<^verbatim>\<open>options.fetch\<close> when it is truthy, the module
  \<^verbatim>\<open>node-fetch\<close> otherwise): every logger it creates for a non-empty name carries this
  configuration. (The amendment is the exclusion of \<^verbatim>\<open>null\<close>.)
\<close>

theorem module_exports_validation:
  assumes "options \<noteq> JNull"
  shows "module_exports options =
     (if truthy (own_prop options ''application'') \<and> truthy (own_prop options ''key'')
         \<and> truthy (own_prop options ''mode'') \<and> truthy (own_prop options ''source'')
      then Inr \<lparr>application = own_prop options ''application'', key = own_prop options ''key'',
                mode = own_prop options ''mode'', source = own_prop options ''source'',
                fetch = (if truthy (own_prop options ''fetch'')
                         then Given (own_prop options ''fetch'') else Node_fetch)\<rparr>
      else Inl (Error ''[configureLogger] Called without all required properties.''))
    \<and> (\<forall>cfg n. module_exports options = Inr cfg \<and> n \<noteq> [] \<longrightarrow>
          configureLogger cfg (JStr n) = Inr \<lparr>conf = cfg, name = n\<rparr>)"
  using assms by (simp add: module_exports_eq configureLogger_def)

theorem module_exports_validation_witness:
  "module_exports fake_options = Inr fake_config
   \<and> module_exports (JObj [(''application'', JStr ''string''), (''key'', JStr ''''),
        (''mode'', JStr ''string''), (''source'', JStr ''string'')])
      = Inl (Error ''[configureLogger] Called without all required properties.'')
   \<and> module_exports (JObj [(''application'', JStr ''string''), (''key'', JStr ''string''),
        (''source'', JStr ''string'')])
      = Inl (Error ''[configureLogger] Called without all required properties.'')
   \<and> module_exports JUndefined
      = Inl (Error ''[configureLogger] Called without all required properties.'')
   \<and> configureLogger fake_config (JStr ''name'') = Inr \<lparr>conf = fake_config, name = ''name''\<rparr>"
  using module_exports_validation [of fake_options]
    module_exports_validation [of "JObj [(''application'', JStr ''string''), (''key'', JStr ''''),
        (''mode'', JStr ''string''), (''source'', JStr ''string'')]"]
    module_exports_validation [of "JObj [(''application'', JStr ''string''), (''key'', JStr ''string''),
        (''source'', JStr ''string'')]"]
    module_exports_validation [of JUndefined]
  by (simp add: fake_options_def fake_config_def)

text \<open>
  C7 as stated fails for \<^verbatim>\<open>null\<close>, which has none of the four fields: the default
  \<^verbatim>\<open>options = {}\<close> does not apply to it, and \<^verbatim>\<open>options.fetch\<close> throws a TypeError before
  the required properties are checked.
\<close>

theorem module_exports_null_counterexample:
  "module_exports JNull = Inl (TypeError ''Cannot read properties of null'')
   \<and> module_exports JNull \<noteq> Inl (Error ''[configureLogger] Called without all required properties.'')"
  by (simp add: module_exports_null)

section \<open>Missing arguments\<close>

text \<open>
  C8. For every operation (createLogger, log, log.error, log.request, log.append), a
  falsy required argument makes the operation throw its error at once: the function
  that creates a logger throws \<^verbatim>\<open>[createLogger] Called without a name.\<close>, \<open>log\<close> throws
  \<^verbatim>\<open>[log] Called without a message.\<close>, \<open>log.error\<close> throws
  \<^verbatim>\<open>[log.error] Called without an error or message.\<close>, \<open>log.request\<close> throws
  \<^verbatim>\<open>[log.request] Called without a request.\<close> and \<open>log.append\<close> throws
  \<^verbatim>\<open>[log.append] Called without a name.\<close>. The world is returned as it was: nothing
  is written to the console and nothing is sent. (Creating and appending a logger
  have no access to the world at all.)
\<close>

theorem falsy_argument_throws:
  assumes "\<not> truthy x"
  shows "configureLogger cfg x = Inl (Error ''[createLogger] Called without a name.'')
    \<and> log l x data notes w = (Inl (Error ''[log] Called without a message.''), w)
    \<and> log_error l x data w = (Inl (Error ''[log.error] Called without an error or message.''), w)
    \<and> log_request l x w = (Inl (Error ''[log.request] Called without a request.''), w)
    \<and> log_append l x = Inl (Error ''[log.append] Called without a name.'')"
  using assms
  by (simp add: configureLogger_def log_def log_error_def log_request_def log_append_def)

theorem falsy_argument_throws_witness:
  "configureLogger fake_config (JNum 0) = Inl (Error ''[createLogger] Called without a name.'')
   \<and> log fake_logger (JNum 0) (JStr ''data'') JUndefined [] =
       (Inl (Error ''[log] Called without a message.''), [])
   \<and> log_error fake_logger (JNum 0) (JStr ''data'') [] =
       (Inl (Error ''[log.error] Called without an error or message.''), [])
   \<and> log_request fake_logger (JNum 0) [] =
       (Inl (Error ''[log.request] Called without a request.''), [])
   \<and> log_append fake_logger (JNum 0) = Inl (Error ''[log.append] Called without a name.'')"
  using falsy_argument_throws [of "JNum 0" fake_config fake_logger "JStr ''data''" JUndefined "[]"]
  by simp

section \<open>The rendered message\<close>

text \<open>
  C9. For every operation that renders a message and every truthy required argument:
  when a value rendered into the message does not convert to a string (the message of
  \<open>log\<close>, the \<^verbatim>\<open>message\<close> of the object of \<open>log.error\<close>, the \<^verbatim>\<open>method\<close> or \<^verbatim>\<open>url\<close> of the
  request), the operation throws the TypeError of the conversion and renders nothing.
  Otherwise it makes one write to the console whose first argument is the display name of
  the logger, a space, the converted message and, for \<open>log\<close>, a suffix; then it either
  throws, sending nothing, or makes one call of \<^verbatim>\<open>fetch\<close> whose \<^verbatim>\<open>log_entry\<close> is that
  same string. The notes decide the suffix and nothing else: the message with notes is the
  message without notes followed by a suffix that is empty or of the form
  \<^verbatim>\<open>" (k1, k2, ...)"\<close>, and the other arguments of the write do not depend on the notes.
  The call of \<^verbatim>\<open>fetch\<close> is made exactly when \<^verbatim>\<open>fetch\<close> is a function and the key and the
  source convert to strings.
\<close>

theorem rendered_message_prefix:
  "(truthy message \<longrightarrow>
      (case to_string message of
         Inl err \<Rightarrow> log l message data nts w = (Inl err, w)
       | Inr m \<Rightarrow>
           (\<exists>sfx r sent.
              createMessage l message nts = Inr (displayName (name l) @ '' '' @ m @ sfx)
              \<and> createMessage l message JUndefined = Inr (displayName (name l) @ '' '' @ m)
              \<and> (sfx = [] \<or> (\<exists>ks. ks \<noteq> [] \<and> sfx = '' ('' @ join '', '' ks @ '')''))
              \<and> log l message data nts w =
                  (r, w @ Console Console_log
                            (JStr (displayName (name l) @ '' '' @ m @ sfx)
                             # (if truthy data then [data] else [])) # sent)
              \<and> ((\<exists>err. r = Inl err \<and> sent = [])
                    \<or> (\<exists>call. r = Inr (Pending call) \<and> sent = [Fetch call]
                         \<and> json_field (fetch_body call) ''log_entry'' = Some (JsonStr (displayName (name l) @ '' '' @ m @ sfx))))
                 \<and> ((\<exists>call. r = Inr (Pending call)) \<longleftrightarrow>
                      fetch (conf l) = Node_fetch \<and> (\<exists>k. to_string (key (conf l)) = Inr k)
                        \<and> (\<exists>sc. to_string (source (conf l)) = Inr sc)))))
   \<and> (s \<noteq> [] \<longrightarrow>
      (\<exists>r sent.
         log_error l (JStr s) data w =
           (r, w @ Console Console_error
                     (JStr (displayName (name l) @ '' '' @ s)
                      # (if truthy data then [data] else [])) # sent)
         \<and> ((\<exists>err. r = Inl err \<and> sent = [])
               \<or> (\<exists>call. r = Inr (Pending call) \<and> sent = [Fetch call]
                    \<and> json_field (fetch_body call) ''log_entry'' = Some (JsonStr (displayName (name l) @ '' '' @ s))))
            \<and> ((\<exists>call. r = Inr (Pending call)) \<longleftrightarrow>
                 fetch (conf l) = Node_fetch \<and> (\<exists>k. to_string (key (conf l)) = Inr k)
                   \<and> (\<exists>sc. to_string (source (conf l)) = Inr sc))))
   \<and> (truthy e \<and> typeof e = ''object'' \<longrightarrow>
      (case to_string (own_prop e ''message'') of
         Inl err \<Rightarrow> log_error l e data w = (Inl err, w)
       | Inr em \<Rightarrow>
           (\<exists>r sent.
              log_error l e data w =
                (r, w @ Console Console_error
                          [JStr (displayName (name l) @ '' '' @ em),
                           JObj [(''stack'', own_prop e ''stack''), (''error'', e)]] # sent)
              \<and> ((\<exists>err. r = Inl err \<and> sent = [])
                    \<or> (\<exists>call. r = Inr (Pending call) \<and> sent = [Fetch call]
                         \<and> json_field (fetch_body call) ''log_entry'' = Some (JsonStr (displayName (name l) @ '' '' @ em))))
                 \<and> ((\<exists>call. r = Inr (Pending call)) \<longleftrightarrow>
                      fetch (conf l) = Node_fetch \<and> (\<exists>k. to_string (key (conf l)) = Inr k)
                        \<and> (\<exists>sc. to_string (source (conf l)) = Inr sc)))))
   \<and> (truthy request \<longrightarrow>
      (case to_string (own_prop request ''method'') of
         Inl err \<Rightarrow> log_request l request w = (Inl err, w)
       | Inr rm \<Rightarrow>
           (case to_string (own_prop request ''url'') of
              Inl err \<Rightarrow> log_request l request w = (Inl err, w)
            | Inr ru \<Rightarrow>
                (\<exists>r sent.
                   log_request l request w =
                     (r, w @ Console Console_log
                               (JStr (displayName (name l) @ '' '' @ rm @ '' '' @ ru)
                                # (if truthy (own_prop request ''body'') then [own_prop request ''body''] else [])) # sent)
                   \<and> ((\<exists>err. r = Inl err \<and> sent = [])
                         \<or> (\<exists>call. r = Inr (Pending call) \<and> sent = [Fetch call]
                              \<and> json_field (fetch_body call) ''log_entry'' = Some (JsonStr (displayName (name l) @ '' '' @ rm @ '' '' @ ru))))
                      \<and> ((\<exists>call. r = Inr (Pending call)) \<longleftrightarrow>
                           fetch (conf l) = Node_fetch \<and> (\<exists>k. to_string (key (conf l)) = Inr k)
                             \<and> (\<exists>sc. to_string (source (conf l)) = Inr sc))))))"
proof (intro conjI impI)
  assume t: "truthy message"
  show "case to_string message of
           Inl err \<Rightarrow> log l message data nts w = (Inl err, w)
         | Inr m \<Rightarrow>
             (\<exists>sfx r sent.
                createMessage l message nts = Inr (displayName (name l) @ '' '' @ m @ sfx)
                \<and> createMessage l message JUndefined = Inr (displayName (name l) @ '' '' @ m)
                \<and> (sfx = [] \<or> (\<exists>ks. ks \<noteq> [] \<and> sfx = '' ('' @ join '', '' ks @ '')''))
                \<and> log l message data nts w =
                    (r, w @ Console Console_log
                              (JStr (displayName (name l) @ '' '' @ m @ sfx)
                               # (if truthy data then [data] else [])) # sent)
                \<and> ((\<exists>err. r = Inl err \<and> sent = [])
                      \<or> (\<exists>call. r = Inr (Pending call) \<and> sent = [Fetch call]
                           \<and> json_field (fetch_body call) ''log_entry'' = Some (JsonStr (displayName (name l) @ '' '' @ m @ sfx))))
                   \<and> ((\<exists>call. r = Inr (Pending call)) \<longleftrightarrow>
                        fetch (conf l) = Node_fetch \<and> (\<exists>k. to_string (key (conf l)) = Inr k)
                          \<and> (\<exists>sc. to_string (source (conf l)) = Inr sc)))"
  proof (cases "to_string message")
    case (Inl err)
    with t show ?thesis
      by (simp add: log_eq createMessage_throws)
  next
    case (Inr m)
    from Inr obtain sfx where sfx:
      "createMessage l message nts = Inr (displayName (name l) @ '' '' @ m @ sfx)"
      "sfx = [] \<or> (\<exists>ks. ks \<noteq> [] \<and> sfx = '' ('' @ join '', '' ks @ '')'')"
      using createMessage_suffix by blast
    have plain: "createMessage l message JUndefined = Inr (displayName (name l) @ '' '' @ m)"
      using Inr by (rule createMessage_no_notes)
    let ?msg = "displayName (name l) @ '' '' @ m @ sfx"
    let ?c = "Console Console_log (JStr ?msg # (if truthy data then [data] else []))"
    have eq: "log l message data nts w =
        logRemotely l ?msg (if truthy data then data else JUndefined) ''info'' (w @ [?c])"
      using t sfx(1) by (simp add: log_eq)
    from logRemotely_outcome [of l ?msg "if truthy data then data else JUndefined" "''info''" w ?c]
    obtain r sent where out:
      "logRemotely l ?msg (if truthy data then data else JUndefined) ''info'' (w @ [?c])
         = (r, w @ ?c # sent)"
      "(\<exists>err. r = Inl err \<and> sent = [])
         \<or> (\<exists>call. r = Inr (Pending call) \<and> sent = [Fetch call]
              \<and> json_field (fetch_body call) ''log_entry'' = Some (JsonStr ?msg))"
      "(\<exists>call. r = Inr (Pending call)) \<longleftrightarrow>
         fetch (conf l) = Node_fetch \<and> (\<exists>k. to_string (key (conf l)) = Inr k)
           \<and> (\<exists>sc. to_string (source (conf l)) = Inr sc)"
      by blast
    have run: "log l message data nts w = (r, w @ ?c # sent)"
      unfolding eq by (rule out(1))
    show ?thesis
      unfolding Inr sum.case
      by (rule exI [of _ sfx], rule exI [of _ r], rule exI [of _ sent])
        (intro conjI sfx plain run out(2) out(3))
  qed
next
  assume s: "s \<noteq> []"
  let ?c = "Console Console_error
     (JStr (displayName (name l) @ '' '' @ s) # (if truthy data then [data] else []))"
  have eq: "log_error l (JStr s) data w =
      logRemotely l (displayName (name l) @ '' '' @ s)
        (if truthy data then data else JUndefined) ''error'' (w @ [?c])"
    using s by (rule log_error_string_eq)
  show "\<exists>r sent.
           log_error l (JStr s) data w =
             (r, w @ Console Console_error
                       (JStr (displayName (name l) @ '' '' @ s)
                        # (if truthy data then [data] else [])) # sent)
           \<and> ((\<exists>err. r = Inl err \<and> sent = [])
                 \<or> (\<exists>call. r = Inr (Pending call) \<and> sent = [Fetch call]
                      \<and> json_field (fetch_body call) ''log_entry'' = Some (JsonStr (displayName (name l) @ '' '' @ s))))
              \<and> ((\<exists>call. r = Inr (Pending call)) \<longleftrightarrow>
                   fetch (conf l) = Node_fetch \<and> (\<exists>k. to_string (key (conf l)) = Inr k)
                     \<and> (\<exists>sc. to_string (source (conf l)) = Inr sc))"
    unfolding eq
    using logRemotely_outcome [of l "displayName (name l) @ '' '' @ s"
        "if truthy data then data else JUndefined" "''error''" w ?c]
    by blast
next
  assume a: "truthy e \<and> typeof e = ''object''"
  let ?metadata = "JObj [(''stack'', own_prop e ''stack''), (''error'', e)]"
  show "case to_string (own_prop e ''message'') of
           Inl err \<Rightarrow> log_error l e data w = (Inl err, w)
         | Inr em \<Rightarrow>
             (\<exists>r sent.
                log_error l e data w =
                  (r, w @ Console Console_error
                            [JStr (displayName (name l) @ '' '' @ em),
                             JObj [(''stack'', own_prop e ''stack''), (''error'', e)]] # sent)
                \<and> ((\<exists>err. r = Inl err \<and> sent = [])
                      \<or> (\<exists>call. r = Inr (Pending call) \<and> sent = [Fetch call]
                           \<and> json_field (fetch_body call) ''log_entry'' = Some (JsonStr (displayName (name l) @ '' '' @ em))))
                   \<and> ((\<exists>call. r = Inr (Pending call)) \<longleftrightarrow>
                        fetch (conf l) = Node_fetch \<and> (\<exists>k. to_string (key (conf l)) = Inr k)
                          \<and> (\<exists>sc. to_string (source (conf l)) = Inr sc)))"
  proof (cases "to_string (own_prop e ''message'')")
    case (Inl err)
    with a show ?thesis
      by (simp add: log_error_object_eq)
  next
    case (Inr em)
    let ?c = "Console Console_error [JStr (displayName (name l) @ '' '' @ em), ?metadata]"
    have eq: "log_error l e data w =
        logRemotely l (displayName (name l) @ '' '' @ em) ?metadata ''error'' (w @ [?c])"
      using a Inr by (simp add: log_error_object_eq)
    show ?thesis
      unfolding Inr sum.case eq
      using logRemotely_outcome [of l "displayName (name l) @ '' '' @ em" ?metadata "''error''" w ?c]
      by blast
  qed
next
  assume r: "truthy request"
  show "case to_string (own_prop request ''method'') of
           Inl err \<Rightarrow> log_request l request w = (Inl err, w)
         | Inr rm \<Rightarrow>
             (case to_string (own_prop request ''url'') of
                Inl err \<Rightarrow> log_request l request w = (Inl err, w)
              | Inr ru \<Rightarrow>
                  (\<exists>r sent.
                     log_request l request w =
                       (r, w @ Console Console_log
                                 (JStr (displayName (name l) @ '' '' @ rm @ '' '' @ ru)
                                  # (if truthy (own_prop request ''body'') then [own_prop request ''body''] else [])) # sent)
                     \<and> ((\<exists>err. r = Inl err \<and> sent = [])
                           \<or> (\<exists>call. r = Inr (Pending call) \<and> sent = [Fetch call]
                                \<and> json_field (fetch_body call) ''log_entry'' = Some (JsonStr (displayName (name l) @ '' '' @ rm @ '' '' @ ru))))
                        \<and> ((\<exists>call. r = Inr (Pending call)) \<longleftrightarrow>
                             fetch (conf l) = Node_fetch \<and> (\<exists>k. to_string (key (conf l)) = Inr k)
                               \<and> (\<exists>sc. to_string (source (conf l)) = Inr sc))))"
  proof (cases "to_string (own_prop request ''method'')")
    case (Inl err)
    with r show ?thesis
      by (simp add: log_request_eq)
  next
    case rm: (Inr rm)
    show ?thesis
    proof (cases "to_string (own_prop request ''url'')")
      case (Inl err)
      with r rm show ?thesis
        by (simp add: log_request_eq)
    next
      case ru: (Inr ru)
      let ?msg = "displayName (name l) @ '' '' @ rm @ '' '' @ ru"
      let ?c = "Console Console_log
         (JStr ?msg # (if truthy (own_prop request ''body'') then [own_prop request ''body''] else []))"
      have eq: "log_request l request w =
          logRemotely l ?msg (if truthy (own_prop request ''body'') then own_prop request ''body'' else JUndefined)
            ''info'' (w @ [?c])"
        using r rm ru by (simp add: log_request_eq)
      show ?thesis
        unfolding rm ru sum.case eq
        using logRemotely_outcome [of l ?msg
            "if truthy (own_prop request ''body'') then own_prop request ''body'' else JUndefined" "''info''" w ?c]
        by blast
    qed
  qed
qed

theorem rendered_message_prefix_witness:
  "(\<exists>call.
      log fake_logger (JStr ''Test message.'') JUndefined
          (JObj [(''note 1'', JBool True), (''note 2'', JBool False)]) [] =
        (Inr (Pending call),
         [Console Console_log [JStr ''[name] Test message. (note 1)''], Fetch call])
      \<and> json_field (fetch_body call) ''log_entry'' = Some (JsonStr ''[name] Test message. (note 1)''))
   \<and> (\<exists>call.
      log_error fake_logger (JStr ''message'') JUndefined [] =
        (Inr (Pending call), [Console Console_error [JStr ''[name] message''], Fetch call])
      \<and> json_field (fetch_body call) ''log_entry'' = Some (JsonStr ''[name] message''))
   \<and> (\<exists>call.
      log_error fake_logger (JError ''Error message.'' ''stack'') JUndefined [] =
        (Inr (Pending call),
         [Console Console_error
            [JStr ''[name] Error message.'',
             JObj [(''stack'', JStr ''stack''), (''error'', JError ''Error message.'' ''stack'')]],
          Fetch call])
      \<and> json_field (fetch_body call) ''log_entry'' = Some (JsonStr ''[name] Error message.''))
   \<and> (\<exists>call.
      log_request fake_logger (JObj [(''method'', JStr ''GET''), (''url'', JStr ''/'')]) [] =
        (Inr (Pending call), [Console Console_log [JStr ''[name] GET /''], Fetch call])
      \<and> json_field (fetch_body call) ''log_entry'' = Some (JsonStr ''[name] GET /''))
   \<and> log fake_logger (JObj [(''toString'', JStr ''x'')]) JUndefined JUndefined [] =
        (Inl (TypeError ''Cannot convert object to primitive value''), [])"
proof -
  let ?nts = "JObj [(''note 1'', JBool True), (''note 2'', JBool False)]"
  let ?e = "JError ''Error message.'' ''stack''"
  let ?metadata = "JObj [(''stack'', JStr ''stack''), (''error'', ?e)]"
  let ?rq = "JObj [(''method'', JStr ''GET''), (''url'', JStr ''/'')]"
  have name: "displayName (name fake_logger) = ''[name]''"
    by (simp add: fake_logger_def displayName_def split_def)
  have full: "createMessage fake_logger (JStr ''Test message.'') ?nts
      = Inr ''[name] Test message. (note 1)''"
    by (simp add: createMessage_def name enumerable_def not_array_index_letter is_digit_def)
  have sends: "fetch (conf fake_logger) = Node_fetch"
    "to_string (key (conf fake_logger)) = Inr ''string''"
    "to_string (source (conf fake_logger)) = Inr ''string''"
    using fake_logger_sends by simp_all
  have first: "\<exists>call.
      log fake_logger (JStr ''Test message.'') JUndefined ?nts [] =
        (Inr (Pending call),
         [Console Console_log [JStr ''[name] Test message. (note 1)''], Fetch call])
      \<and> json_field (fetch_body call) ''log_entry'' = Some (JsonStr ''[name] Test message. (note 1)'')"
    using rendered_message_prefix [of "JStr ''Test message.''" fake_logger JUndefined ?nts "[]"
        "''message''" JUndefined JUndefined, THEN conjunct1]
    by (auto simp: name full sends)
  have second: "\<exists>call.
      log_error fake_logger (JStr ''message'') JUndefined [] =
        (Inr (Pending call), [Console Console_error [JStr ''[name] message''], Fetch call])
      \<and> json_field (fetch_body call) ''log_entry'' = Some (JsonStr ''[name] message'')"
    using rendered_message_prefix [of JUndefined fake_logger JUndefined JUndefined "[]"
        "''message''" JUndefined JUndefined, THEN conjunct2, THEN conjunct1]
    by (auto simp: name sends)
  have third: "\<exists>call.
      log_error fake_logger ?e JUndefined [] =
        (Inr (Pending call),
         [Console Console_error [JStr ''[name] Error message.'', ?metadata], Fetch call])
      \<and> json_field (fetch_body call) ''log_entry'' = Some (JsonStr ''[name] Error message.'')"
    using rendered_message_prefix [of JUndefined fake_logger JUndefined JUndefined "[]"
        "''message''" ?e JUndefined, THEN conjunct2, THEN conjunct2, THEN conjunct1]
    by (auto simp: name sends)
  have fourth: "\<exists>call.
      log_request fake_logger ?rq [] =
        (Inr (Pending call), [Console Console_log [JStr ''[name] GET /''], Fetch call])
      \<and> json_field (fetch_body call) ''log_entry'' = Some (JsonStr ''[name] GET /'')"
    using rendered_message_prefix [of JUndefined fake_logger JUndefined JUndefined "[]"
        "''message''" JUndefined ?rq, THEN conjunct2, THEN conjunct2, THEN conjunct2]
    by (auto simp: name sends)
  have fifth: "log fake_logger (JObj [(''toString'', JStr ''x'')]) JUndefined JUndefined [] =
        (Inl (TypeError ''Cannot convert object to primitive value''), [])"
    using rendered_message_prefix [of "JObj [(''toString'', JStr ''x'')]" fake_logger JUndefined
        JUndefined "[]" "''message''" JUndefined JUndefined, THEN conjunct1]
    by simp
  show ?thesis
    by (intro conjI first second third fourth fifth)
qed

section \<open>Requests without method or url\<close>

text \<open>
  C10, amended. For every truthy request, \<open>log.request\<close> never throws an error of its own:
  the check of the request is its only validation. It converts the \<^verbatim>\<open>method\<close> and then
  the \<^verbatim>\<open>url\<close> of the request to strings, and throws the TypeError of the language, before
  any write, when a conversion does. When both convert, it writes to \<^verbatim>\<open>console.log\<close> the
  message rendered from the two strings; then it does not throw, and sends that message,
  exactly when \<^verbatim>\<open>fetch\<close> is a function and the key and the source of the logger convert
  to strings. A field that is absent (on an object without the key, and on every value
  that is not an object) is rendered as \<^verbatim>\<open>undefined\<close>. (The amendment: the values
  rendered must convert to strings. Every value of the model does except an object with
  an own \<^verbatim>\<open>toString\<close> property; a symbol, which does not convert either, and a body that
  \<^verbatim>\<open>JSON.stringify\<close> rejects, such as a cyclic object or a bigint, are not values of the
  model: the statement does not cover them.)
\<close>

theorem log_request_missing_fields:
  assumes r: "truthy request"
  shows "(case to_string (own_prop request ''method'') of
           Inl err \<Rightarrow> log_request l request w = (Inl err, w)
         | Inr rm \<Rightarrow>
             (case to_string (own_prop request ''url'') of
                Inl err \<Rightarrow> log_request l request w = (Inl err, w)
              | Inr ru \<Rightarrow>
                  (\<exists>r sent.
                     log_request l request w =
                       (r, w @ Console Console_log
                                 (JStr (displayName (name l) @ '' '' @ rm @ '' '' @ ru)
                                  # (if truthy (own_prop request ''body'') then [own_prop request ''body''] else [])) # sent)
                     \<and> ((\<exists>err. r = Inl err \<and> sent = [])
                           \<or> (\<exists>call. r = Inr (Pending call) \<and> sent = [Fetch call]
                                \<and> json_field (fetch_body call) ''log_entry'' = Some (JsonStr (displayName (name l) @ '' '' @ rm @ '' '' @ ru))))
                        \<and> ((\<exists>call. r = Inr (Pending call)) \<longleftrightarrow>
                             fetch (conf l) = Node_fetch \<and> (\<exists>k. to_string (key (conf l)) = Inr k)
                               \<and> (\<exists>sc. to_string (source (conf l)) = Inr sc)))))
    \<and> (\<forall>text. fst (log_request l request w) \<noteq> Inl (Error text))
    \<and> (\<forall>ps. request = JObj ps \<and> map_of ps ''method'' = None \<longrightarrow>
          to_string (own_prop request ''method'') = Inr ''undefined'')
    \<and> (\<forall>ps. request = JObj ps \<and> map_of ps ''url'' = None \<longrightarrow>
          to_string (own_prop request ''url'') = Inr ''undefined'')
    \<and> ((\<forall>ps. request \<noteq> JObj ps) \<longrightarrow>
          to_string (own_prop request ''method'') = Inr ''undefined''
          \<and> to_string (own_prop request ''url'') = Inr ''undefined'')"
proof -
  have main: "case to_string (own_prop request ''method'') of
           Inl err \<Rightarrow> log_request l request w = (Inl err, w)
         | Inr rm \<Rightarrow>
             (case to_string (own_prop request ''url'') of
                Inl err \<Rightarrow> log_request l request w = (Inl err, w)
              | Inr ru \<Rightarrow>
                  (\<exists>r sent.
                     log_request l request w =
                       (r, w @ Console Console_log
                                 (JStr (displayName (name l) @ '' '' @ rm @ '' '' @ ru)
                                  # (if truthy (own_prop request ''body'') then [own_prop request ''body''] else [])) # sent)
                     \<and> ((\<exists>err. r = Inl err \<and> sent = [])
                           \<or> (\<exists>call. r = Inr (Pending call) \<and> sent = [Fetch call]
                                \<and> json_field (fetch_body call) ''log_entry'' = Some (JsonStr (displayName (name l) @ '' '' @ rm @ '' '' @ ru))))
                        \<and> ((\<exists>call. r = Inr (Pending call)) \<longleftrightarrow>
                             fetch (conf l) = Node_fetch \<and> (\<exists>k. to_string (key (conf l)) = Inr k)
                               \<and> (\<exists>sc. to_string (source (conf l)) = Inr sc))))"
  proof (cases "to_string (own_prop request ''method'')")
    case (Inl err)
    with r show ?thesis
      by (simp add: log_request_eq)
  next
    case rm: (Inr rm)
    show ?thesis
    proof (cases "to_string (own_prop request ''url'')")
      case (Inl err)
      with r rm show ?thesis
        by (simp add: log_request_eq)
    next
      case ru: (Inr ru)
      let ?msg = "displayName (name l) @ '' '' @ rm @ '' '' @ ru"
      let ?c = "Console Console_log
         (JStr ?msg # (if truthy (own_prop request ''body'') then [own_prop request ''body''] else []))"
      have eq: "log_request l request w =
          logRemotely l ?msg (if truthy (own_prop request ''body'') then own_prop request ''body'' else JUndefined)
            ''info'' (w @ [?c])"
        using r rm ru by (simp add: log_request_eq)
      show ?thesis
        unfolding rm ru sum.case eq
        using logRemotely_outcome [of l ?msg
            "if truthy (own_prop request ''body'') then own_prop request ''body'' else JUndefined" "''info''" w ?c]
        by blast
    qed
  qed
  have own: "\<forall>text. fst (log_request l request w) \<noteq> Inl (Error text)"
    unfolding log_request_eq [OF r]
    by (auto simp: logRemotely_error split: sum.split dest: to_string_error)
  have absent_method: "\<forall>ps. request = JObj ps \<and> map_of ps ''method'' = None \<longrightarrow>
          to_string (own_prop request ''method'') = Inr ''undefined''"
    by simp
  have absent_url: "\<forall>ps. request = JObj ps \<and> map_of ps ''url'' = None \<longrightarrow>
          to_string (own_prop request ''url'') = Inr ''undefined''"
    by simp
  have other: "(\<forall>ps. request \<noteq> JObj ps) \<longrightarrow>
          to_string (own_prop request ''method'') = Inr ''undefined''
          \<and> to_string (own_prop request ''url'') = Inr ''undefined''"
    by (cases request) (simp_all add: is_array_index_def is_digit_def)
  show ?thesis
    by (intro conjI main own absent_method absent_url other)
qed

theorem log_request_missing_fields_witness:
  "(\<exists>call.
      log_request fake_logger (JObj []) [] =
        (Inr (Pending call), [Console Console_log [JStr ''[name] undefined undefined''], Fetch call]))
   \<and> (\<exists>call.
      log_request fake_logger (JObj [(''url'', JStr ''/'')]) [] =
        (Inr (Pending call), [Console Console_log [JStr ''[name] undefined /''], Fetch call]))
   \<and> (\<exists>call.
      log_request fake_logger (JBool True) [] =
        (Inr (Pending call), [Console Console_log [JStr ''[name] undefined undefined''], Fetch call]))"
proof -
  have name: "displayName (name fake_logger) = ''[name]''"
    by (simp add: fake_logger_def displayName_def split_def)
  have sends: "fetch (conf fake_logger) = Node_fetch"
    "to_string (key (conf fake_logger)) = Inr ''string''"
    "to_string (source (conf fake_logger)) = Inr ''string''"
    using fake_logger_sends by simp_all
  have t: "truthy (JObj [])" "truthy (JObj [(''url'', JStr ''/'')])" "truthy (JBool True)"
    by simp_all
  have first: "\<exists>call.
      log_request fake_logger (JObj []) [] =
        (Inr (Pending call), [Console Console_log [JStr ''[name] undefined undefined''], Fetch call])"
    using log_request_missing_fields [OF t(1), of fake_logger "[]", THEN conjunct1]
    by (auto simp: name sends)
  have second: "\<exists>call.
      log_request fake_logger (JObj [(''url'', JStr ''/'')]) [] =
        (Inr (Pending call), [Console Console_log [JStr ''[name] undefined /''], Fetch call])"
    using log_request_missing_fields [OF t(2), of fake_logger "[]", THEN conjunct1]
    by (auto simp: name sends)
  have third: "\<exists>call.
      log_request fake_logger (JBool True) [] =
        (Inr (Pending call), [Console Console_log [JStr ''[name] undefined undefined''], Fetch call])"
    using log_request_missing_fields [OF t(3), of fake_logger "[]", THEN conjunct1]
    by (auto simp: name sends)
  show ?thesis
    by (intro conjI first second third)
qed

text \<open>
  C10 as stated fails for a truthy request whose \<^verbatim>\<open>method\<close> does not convert to a
  string: for the request \<^verbatim>\<open>{ method: { toString: 'x' }, url: '/' }\<close> the template
  literal of line 113 throws a TypeError, and nothing is written or sent.
\<close>

theorem log_request_toString_counterexample:
  "truthy (JObj [(''method'', JObj [(''toString'', JStr ''x'')]), (''url'', JStr ''/'')])
   \<and> log_request fake_logger
       (JObj [(''method'', JObj [(''toString'', JStr ''x'')]), (''url'', JStr ''/'')]) []
     = (Inl (TypeError ''Cannot convert object to primitive value''), [])"
  by (simp add: log_request_eq)

end
